theory Spec2Isabelle
  imports Main "HOL-Library.Word"
begin

unbundle bit_operations_syntax

section \<open>Navigator: Options and the compiled PinMatcher\<close>

text \<open>
  Source: package navigator (Options, Options.Copy, Options.Matcher, endpointListMatch).
  The packages \<open>endpoints\<close> and \<open>intel\<close> are external collaborators: an endpoint list
  is a list over an arbitrary entry type \<open>'ep\<close>, an entity is a value of an arbitrary
  type \<open>'ent\<close>, and the three functions the matcher calls on them (\<open>IsSet\<close>,
  \<open>MatchMulti\<close>, \<open>Match\<close>) are the fields of an interface record handed to the model.
\<close>

datatype HubType = HomeHub | TransitHub | DestinationHub

datatype EPResult = NoMatch | MatchError | Denied | Permitted

record ('ep, 'ent) Endpoints =
  IsSet :: "'ep list \<Rightarrow> bool"
  MatchMulti :: "'ep list \<Rightarrow> 'ent option \<Rightarrow> 'ent option \<Rightarrow> EPResult \<times> string"
  Match :: "'ep list \<Rightarrow> 'ent \<Rightarrow> EPResult \<times> string"

text \<open>
  \<open>PinState\<close> is a bitset; its declaration and the state constants are not part of the
  excerpt, so the width is left open (\<open>'a word\<close>) and the constants the matcher names
  are the fields of a record.
\<close>

record 's PinStates =
  StateReachable :: 's
  StateActive :: 's
  StateTrusted :: 's
  StateUsageAsHomeDiscouraged :: 's
  StateUsageAsDestinationDiscouraged :: 's
  StateConnectivityIssues :: 's
  StateSummaryRegard :: 's
  StateSummaryDisregard :: 's

text \<open>Modelled from the spec: PinState.Add, the bitset union of the states (section 3, "a State bitset").\<close>
definition Add :: "'a::len word \<Rightarrow> 'a word \<Rightarrow> 'a word" where
  "Add pinState states = pinState OR states"

text \<open>Modelled from the spec: PinState.Remove, clearing the given states in the bitset.\<close>
definition Remove :: "'a::len word \<Rightarrow> 'a word \<Rightarrow> 'a word" where
  "Remove pinState states = pinState AND NOT states"

text \<open>Modelled from the spec: PinState.Has, "pin.State must contain all Regard bits".\<close>
definition Has :: "'a::len word \<Rightarrow> 'a word \<Rightarrow> bool" where
  "Has pinState states = (pinState AND states = states)"

text \<open>Modelled from the spec: PinState.HasAnyOf, "and none of Disregard".\<close>
definition HasAnyOf :: "'a::len word \<Rightarrow> 'a word \<Rightarrow> bool" where
  "HasAnyOf pinState states = (pinState AND states \<noteq> 0)"

record ('s, 'ep, 'ent) Options =
  Regard :: 's
  Disregard :: 's
  HubPolicies :: "'ep list list"
  CheckHubEntryPolicyWith :: "'ent option"
  CheckHubExitPolicyWith :: "'ent option"
  RequireVerifiedOwners :: "string list"
  NoDefaults :: bool
  RequireTrustedDestinationHubs :: bool
  RoutingProfile :: string

text \<open>
  \<open>Options.Copy\<close>: the composite literal names eight fields; \<open>RequireVerifiedOwners\<close> is
  not among them and so takes Go's zero value, the nil slice.
\<close>

definition Copy :: "('s, 'ep, 'ent) Options \<Rightarrow> ('s, 'ep, 'ent) Options" where
  "Copy opts = \<lparr>
     Regard = Regard opts,
     Disregard = Disregard opts,
     HubPolicies = HubPolicies opts,
     CheckHubEntryPolicyWith = CheckHubEntryPolicyWith opts,
     CheckHubExitPolicyWith = CheckHubExitPolicyWith opts,
     RequireVerifiedOwners = [],
     NoDefaults = NoDefaults opts,
     RequireTrustedDestinationHubs = RequireTrustedDestinationHubs opts,
     RoutingProfile = RoutingProfile opts \<rparr>"

text \<open>\<open>Options.HubPoliciesAreSet\<close>.\<close>

fun HubPoliciesAreSet :: "('ep, 'ent) Endpoints \<Rightarrow> 'ep list list \<Rightarrow> bool" where
  "HubPoliciesAreSet E [] = False"
| "HubPoliciesAreSet E (policy # rest) =
     (if IsSet E policy then True else HubPoliciesAreSet E rest)"

subsection \<open>Compilation of the matcher\<close>

text \<open>
  The states to regard and to disregard, as \<open>Matcher\<close> compiles them before it returns
  the closure: the caller's states, the defaults unless \<open>NoDefaults\<close>, the hub type's
  advisories, and the Trusted requirement for destination hubs.
\<close>

definition defaultRegard ::
  "('a::len word) PinStates \<Rightarrow> ('a word, 'ep, 'ent) Options \<Rightarrow> HubType \<Rightarrow> 'a word" where
  "defaultRegard C opts hubType =
     (if \<not> NoDefaults opts then
        (let regard = Add (Regard opts) (StateSummaryRegard C) in
         case hubType of
           HomeHub \<Rightarrow> Remove (Remove regard (StateReachable C)) (StateActive C)
         | TransitHub \<Rightarrow> regard
         | DestinationHub \<Rightarrow> regard)
      else Regard opts)"

definition defaultDisregard ::
  "('a::len word) PinStates \<Rightarrow> ('a word, 'ep, 'ent) Options \<Rightarrow> HubType \<Rightarrow> 'a word" where
  "defaultDisregard C opts hubType =
     (if \<not> NoDefaults opts then
        (let disregard = Add (Disregard opts) (StateSummaryDisregard C) in
         case hubType of
           HomeHub \<Rightarrow> Add disregard (StateUsageAsHomeDiscouraged C)
         | TransitHub \<Rightarrow> disregard
         | DestinationHub \<Rightarrow>
             Add (Add disregard (StateUsageAsDestinationDiscouraged C)) (StateConnectivityIssues C))
      else Disregard opts)"

definition compiledRegard ::
  "('a::len word) PinStates \<Rightarrow> ('a word, 'ep, 'ent) Options \<Rightarrow> HubType \<Rightarrow> 'a word" where
  "compiledRegard C opts hubType =
     (let regard = defaultRegard C opts hubType in
      if RequireTrustedDestinationHubs opts \<and> hubType = DestinationHub
      then regard OR StateTrusted C else regard)"

definition compiledDisregard ::
  "('a::len word) PinStates \<Rightarrow> ('a word, 'ep, 'ent) Options \<Rightarrow> HubType \<Rightarrow> 'a word" where
  "compiledDisregard C opts hubType = defaultDisregard C opts hubType"

text \<open>
  \<open>hub.Intel\<close>: a possibly nil pointer whose \<open>Parsed()\<close> is again possibly nil; the parsed
  intel carries the three advisory endpoint lists.
\<close>

record 'ep ParsedIntel =
  HubAdvisory :: "'ep list"
  HomeHubAdvisory :: "'ep list"
  DestinationHubAdvisory :: "'ep list"

record 'ep Intel =
  Parsed :: "'ep ParsedIntel option"

definition compiledPolicies ::
  "('s, 'ep, 'ent) Options \<Rightarrow> HubType \<Rightarrow> 'ep Intel option \<Rightarrow> 'ep list list" where
  "compiledPolicies opts hubType hubIntel =
     (case hubIntel of
        None \<Rightarrow> HubPolicies opts
      | Some i \<Rightarrow>
          (case Parsed i of
             None \<Rightarrow> HubPolicies opts
           | Some p \<Rightarrow>
               (case hubType of
                  HomeHub \<Rightarrow> HubPolicies opts @ [HubAdvisory p, HomeHubAdvisory p]
                | TransitHub \<Rightarrow> HubPolicies opts @ [HubAdvisory p]
                | DestinationHub \<Rightarrow> HubPolicies opts @ [HubAdvisory p, DestinationHubAdvisory p])))"

text \<open>
  The policies that \<open>Matcher\<close> appends from the hub intel, by hub type: the list it
  compiles is the caller's \<open>HubPolicies\<close> followed by these.
\<close>

definition intelPolicies :: "HubType \<Rightarrow> 'ep Intel option \<Rightarrow> 'ep list list" where
  "intelPolicies hubType hubIntel =
     (case hubIntel of
        None \<Rightarrow> []
      | Some i \<Rightarrow>
          (case Parsed i of
             None \<Rightarrow> []
           | Some p \<Rightarrow>
               (case hubType of
                  HomeHub \<Rightarrow> [HubAdvisory p, HomeHubAdvisory p]
                | TransitHub \<Rightarrow> [HubAdvisory p]
                | DestinationHub \<Rightarrow> [HubAdvisory p, DestinationHubAdvisory p])))"


subsection \<open>Pins and the compiled predicate\<close>

record 'ep HubInfo =
  EntryPolicy :: "'ep list"
  ExitPolicy :: "'ep list"

record ('id, 'ep) Hub =
  ID :: 'id
  Info :: "'ep HubInfo"

record ('s, 'id, 'ep, 'ent) Pin =
  Hub :: "('id, 'ep) Hub"
  State :: 's
  VerifiedOwner :: string
  EntityV4 :: "'ent option"
  EntityV6 :: "'ent option"

text \<open>\<open>endpointListMatch\<close>: NoMatch without a set list or without an entity.\<close>

definition endpointListMatch ::
  "('ep, 'ent) Endpoints \<Rightarrow> 'ep list \<Rightarrow> 'ent option \<Rightarrow> EPResult" where
  "endpointListMatch E list entity =
     (if \<not> IsSet E list then NoMatch
      else (case entity of None \<Rightarrow> NoMatch | Some e \<Rightarrow> fst (Match E list e)))"

text \<open>
  The check of the verified owner: with a non-empty list of required owners the pin's
  owner must be non-empty and found by the loop over the list, which leaves at the first
  equal entry.
\<close>

fun inList :: "string \<Rightarrow> string list \<Rightarrow> bool" where
  "inList owner [] = False"
| "inList owner (allowed # rest) = (if owner = allowed then True else inList owner rest)"

definition ownersOk :: "string list \<Rightarrow> string \<Rightarrow> bool" where
  "ownersOk required owner =
     (if length required > 0 then
        (if owner = [] then False
         else if \<not> inList owner required then False
         else True)
      else True)"

text \<open>
  The labelled loop \<open>policyCheck\<close>. The result is whether the loop let the pin pass
  (\<open>False\<close> is the \<open>return false\<close> of the Denied case) and the warnings it logged, in
  order.
\<close>

definition matchWarning :: "string \<Rightarrow> string" where
  "matchWarning reason = ''spn/navigator: failed to match policy: '' @ reason"

fun policyCheck ::
  "('ep, 'ent) Endpoints \<Rightarrow> 'ent option \<Rightarrow> 'ent option \<Rightarrow> 'ep list list \<Rightarrow> bool \<times> string list"
where
  "policyCheck E v4 v6 [] = (True, [])"
| "policyCheck E v4 v6 (policy # rest) =
     (if \<not> IsSet E policy then policyCheck E v4 v6 rest
      else
        (case MatchMulti E policy v4 v6 of
           (NoMatch, reason) \<Rightarrow> policyCheck E v4 v6 rest
         | (MatchError, reason) \<Rightarrow>
             (fst (policyCheck E v4 v6 rest),
              matchWarning reason # snd (policyCheck E v4 v6 rest))
         | (Denied, reason) \<Rightarrow> (False, [])
         | (Permitted, reason) \<Rightarrow> (True, [])))"

text \<open>
  The two probes after the policy loop, as the source writes them: both read
  \<open>pin.Hub.Info.EntryPolicy()\<close>.
\<close>

definition entryProbeDenied ::
  "('ep, 'ent) Endpoints \<Rightarrow> 'ent option \<Rightarrow> ('s, 'id, 'ep, 'ent) Pin \<Rightarrow> bool" where
  "entryProbeDenied E checkHubEntryPolicyWith pin =
     (checkHubEntryPolicyWith \<noteq> None \<and>
      endpointListMatch E (EntryPolicy (Info (Hub pin))) checkHubEntryPolicyWith = Denied)"

definition exitProbeDenied ::
  "('ep, 'ent) Endpoints \<Rightarrow> 'ent option \<Rightarrow> ('s, 'id, 'ep, 'ent) Pin \<Rightarrow> bool" where
  "exitProbeDenied E checkHubExitPolicyWith pin =
     (checkHubExitPolicyWith \<noteq> None \<and>
      endpointListMatch E (EntryPolicy (Info (Hub pin))) checkHubExitPolicyWith = Denied)"

text \<open>
  \<open>Options.Matcher\<close>, applied to a pin: the boolean the closure returns and the
  warnings it logged.
\<close>

definition Matcher ::
  "('ep, 'ent) Endpoints \<Rightarrow> ('a::len word) PinStates \<Rightarrow> ('a word, 'ep, 'ent) Options \<Rightarrow>
   HubType \<Rightarrow> 'ep Intel option \<Rightarrow> ('a word, 'id, 'ep, 'ent) Pin \<Rightarrow> bool \<times> string list" where
  "Matcher E C opts hubType hubIntel pin =
     (let regard = compiledRegard C opts hubType;
          disregard = compiledDisregard C opts hubType;
          hubPolicies = compiledPolicies opts hubType hubIntel;
          checkHubEntryPolicyWith = CheckHubEntryPolicyWith opts;
          checkHubExitPolicyWith = CheckHubExitPolicyWith opts
      in
        if \<not> Has (State pin) regard \<or> HasAnyOf (State pin) disregard then (False, [])
        else if \<not> ownersOk (RequireVerifiedOwners opts) (VerifiedOwner pin) then (False, [])
        else
          (case policyCheck E (EntityV4 pin) (EntityV6 pin) hubPolicies of
             (False, warnings) \<Rightarrow> (False, warnings)
           | (True, warnings) \<Rightarrow>
               if entryProbeDenied E checkHubEntryPolicyWith pin then (False, warnings)
               else if exitProbeDenied E checkHubExitPolicyWith pin then (False, warnings)
               else (True, warnings)))"


section \<open>Captain: establishHomeHub\<close>

text \<open>
  Errors are values. \<open>ErrorNew\<close> is \<open>errors.New\<close> (and \<open>fmt.Errorf\<close> without \<open>%w\<close>);
  \<open>Errorf\<close> is \<open>fmt.Errorf\<close> with its format string, its integer arguments and the
  error wrapped by \<open>%w\<close>. \<open>errorsIs\<close> is \<open>errors.Is\<close>: equality along the chain of
  wrapped errors.
\<close>

datatype error =
    ErrEmptyMap
  | ErrStopping
  | ErrAllHomeHubsExcluded
  | ErrorNew string
  | Errorf string "nat list" error

fun errorsIs :: "error \<Rightarrow> error \<Rightarrow> bool" where
  "errorsIs (Errorf fmt args inner) target =
     (if Errorf fmt args inner = target then True else errorsIs inner target)"
| "errorsIs err target = (err = target)"

text \<open>
  The device locations of \<open>netenv.GetInternetLocation\<close>: \<open>BestV4()\<close> and \<open>BestV6()\<close>
  are possibly nil, and so are the IP and the location of each.
\<close>

record ('ip, 'loc) DeviceLocation =
  IP :: "'ip option"
  Location :: "'loc option"

record ('ip, 'loc) DeviceLocations =
  BestV4 :: "('ip, 'loc) DeviceLocation option"
  BestV6 :: "('ip, 'loc) DeviceLocation option"

definition LocationOrNil :: "('ip, 'loc) DeviceLocation option \<Rightarrow> 'loc option" where
  "LocationOrNil dl = (case dl of None \<Rightarrow> None | Some d \<Rightarrow> Location d)"

text \<open>
  "Get own entity": the entity of the best v4 location when it has an IP, else of the
  best v6 location when that has one, else nil. \<open>newEntity\<close> stands for
  \<open>SetIP\<close> and \<open>FetchData\<close> on a fresh \<open>intel.Entity\<close>.
\<close>

definition myEntity ::
  "('ip \<Rightarrow> 'ent) \<Rightarrow> ('ip, 'loc) DeviceLocations \<Rightarrow> 'ent option" where
  "myEntity newEntity locations =
     (case BestV4 locations of
        Some dl \<Rightarrow>
          (case IP dl of
             Some ip \<Rightarrow> Some (newEntity ip)
           | None \<Rightarrow>
               (case BestV6 locations of
                  Some dl6 \<Rightarrow> (case IP dl6 of Some ip \<Rightarrow> Some (newEntity ip) | None \<Rightarrow> None)
                | None \<Rightarrow> None))
      | None \<Rightarrow>
          (case BestV6 locations of
             Some dl6 \<Rightarrow> (case IP dl6 of Some ip \<Rightarrow> Some (newEntity ip) | None \<Rightarrow> None)
           | None \<Rightarrow> None))"

text \<open>
  "Build navigation options for searching for a home hub": the literal sets
  \<open>HubPolicies\<close> and \<open>CheckHubEntryPolicyWith\<close>; every other field is Go's zero value.
\<close>

definition homeHubOptions ::
  "'ep list \<Rightarrow> 'ent option \<Rightarrow> ('a::len word, 'ep, 'ent) Options" where
  "homeHubOptions homePolicy entity = \<lparr>
     Regard = 0,
     Disregard = 0,
     HubPolicies = [homePolicy],
     CheckHubEntryPolicyWith = entity,
     CheckHubExitPolicyWith = None,
     RequireVerifiedOwners = [],
     NoDefaults = False,
     RequireTrustedDestinationHubs = False,
     RoutingProfile = [] \<rparr>"

text \<open>
  What \<open>establishHomeHub\<close> calls outside itself. The map changes between calls (a
  bootstrap fills it), so \<open>FindNearestHubs\<close> and \<open>bootstrapWithUpdates\<close> take the number
  of the call: \<open>FindNearestHubs w k\<close> is the answer of the search made after \<open>k\<close>
  bootstraps, \<open>bootstrapWithUpdates w k\<close> the outcome of the bootstrap after \<open>k\<close>
  earlier ones (\<open>None\<close> is a nil error). \<open>connectToHomeHub\<close> is the outcome of the
  connection attempt to a candidate.
\<close>

record ('s, 'ep, 'ent, 'ip, 'loc, 'hub) World =
  GetInternetLocation :: "('ip, 'loc) DeviceLocations option"
  newEntity :: "'ip \<Rightarrow> 'ent"
  getHomeHubPolicy :: "error + 'ep list"
  FindNearestHubs ::
    "nat \<Rightarrow> 'loc option \<Rightarrow> 'loc option \<Rightarrow> ('s, 'ep, 'ent) Options \<Rightarrow> HubType \<Rightarrow> nat \<Rightarrow>
     error + 'hub list"
  bootstrapWithUpdates :: "nat \<Rightarrow> error option"
  connectToHomeHub :: "'hub \<Rightarrow> error option"

text \<open>
  The label \<open>findCandidates\<close> and the \<open>goto\<close> back to it. The loop has no bound of its
  own, so it is a partial function: \<open>None\<close> is a run that never leaves the loop. A run
  that leaves it returns the candidates or the error, and the number of bootstraps made.
\<close>

partial_function (option) findCandidates ::
  "(nat \<Rightarrow> error + 'hub list) \<Rightarrow> (nat \<Rightarrow> error option) \<Rightarrow> nat \<Rightarrow>
   ((error + 'hub list) \<times> nat) option" where
  "findCandidates search bootstrap n =
     (case search n of
        Inr candidates \<Rightarrow> Some (Inr candidates, n)
      | Inl err \<Rightarrow>
          if errorsIs err ErrEmptyMap then
            (case bootstrap n of
               Some bootErr \<Rightarrow> Some (Inl bootErr, Suc n)
             | None \<Rightarrow> findCandidates search bootstrap (Suc n))
          else Some (Inl (Errorf ''failed to find nearby hubs: %w'' [] err), n))"

text \<open>
  "Try connecting to a hub": the range loop with its variables \<open>tries\<close> and \<open>err\<close>, and
  the two returns after it. \<open>i\<close> is the index of the candidate at the head of the list.
\<close>

fun tryCandidates ::
  "('hub \<Rightarrow> error option) \<Rightarrow> 'hub list \<Rightarrow> nat \<Rightarrow> nat \<Rightarrow> error option \<Rightarrow> error option" where
  "tryCandidates connect [] i tries err =
     (case err of
        Some e \<Rightarrow>
          Some (Errorf ''failed to connect to a new home hub - tried %d hubs: %w'' [tries + 1] e)
      | None \<Rightarrow> Some (ErrorNew ''no home hub candidates available''))"
| "tryCandidates connect (candidate # rest) i tries err =
     (case connect candidate of
        Some e \<Rightarrow>
          if errorsIs e ErrStopping then Some e
          else tryCandidates connect rest (Suc i) i (Some e)
      | None \<Rightarrow> None)"

text \<open>
  \<open>establishHomeHub\<close>: \<open>None\<close> when the call never returns; otherwise the error returned
  (\<open>None\<close> for nil) and the number of times \<open>bootstrapWithUpdates\<close> was invoked.
\<close>

definition establishHomeHub ::
  "('a::len word, 'ep, 'ent, 'ip, 'loc, 'hub) World \<Rightarrow> (error option \<times> nat) option" where
  "establishHomeHub w =
     (case GetInternetLocation w of
        None \<Rightarrow> Some (Some (ErrorNew ''failed to locate own device''), 0)
      | Some locations \<Rightarrow>
          (case getHomeHubPolicy w of
             Inl err \<Rightarrow> Some (Some err, 0)
           | Inr homePolicy \<Rightarrow>
               (let opts = homeHubOptions homePolicy (myEntity (newEntity w) locations) in
                case findCandidates
                       (\<lambda>k. FindNearestHubs w k
                              (LocationOrNil (BestV4 locations))
                              (LocationOrNil (BestV6 locations))
                              opts HomeHub 10)
                       (bootstrapWithUpdates w) 0 of
                  None \<Rightarrow> None
                | Some (Inl err, boots) \<Rightarrow> Some (Some err, boots)
                | Some (Inr candidates, boots) \<Rightarrow>
                    if length candidates = 0 \<and> length homePolicy > 0
                    then Some (Some ErrAllHomeHubsExcluded, boots)
                    else Some (tryCandidates (connectToHomeHub w) candidates 0 0 None, boots))))"


text \<open>
  The search that \<open>establishHomeHub\<close> repeats: \<open>FindNearestHubs\<close> with the locations, the
  home hub options, \<open>HomeHub\<close> and 10, as a function of the number of bootstraps made.
\<close>

definition homeHubSearch ::
  "('a::len word, 'ep, 'ent, 'ip, 'loc, 'hub) World \<Rightarrow> ('ip, 'loc) DeviceLocations \<Rightarrow> 'ep list \<Rightarrow>
   nat \<Rightarrow> error + 'hub list" where
  "homeHubSearch w locations homePolicy k =
     FindNearestHubs w k (LocationOrNil (BestV4 locations)) (LocationOrNil (BestV6 locations))
       (homeHubOptions homePolicy (myEntity (newEntity w) locations)) HomeHub 10"

section \<open>Terminal: messages and their units\<close>

type_synonym byte = "8 word"

datatype MsgType = MsgTypeInit | MsgTypeData | MsgTypeStop

text \<open>
  Modelled from the spec: a unit of the scheduler (package \<open>unit\<close>, not part of the
  excerpt), "an opaque work token" that "carries a priority bit" and is finished by
  \<open>FinishUnit\<close>; \<open>finished\<close> counts the calls of \<open>FinishUnit\<close> on it.
\<close>
record Unit =
  highPriority :: bool
  finished :: nat

text \<open>
  The scheduler is the store of the units: a message holds a reference to its unit, and
  two messages may be asked about the same store.
\<close>

record Scheduler =
  units :: "nat \<Rightarrow> Unit"
  issued :: nat

text \<open>Modelled from the spec: \<open>Scheduler.NewUnit\<close>, "allocate a token", monotonically numbered.\<close>
definition NewUnit :: "Scheduler \<Rightarrow> nat \<times> Scheduler" where
  "NewUnit sched =
     (issued sched,
      sched\<lparr>units := (units sched)(issued sched := \<lparr>highPriority = False, finished = 0\<rparr>),
            issued := Suc (issued sched)\<rparr>)"

text \<open>Modelled from the spec: \<open>IsHighPriorityUnit\<close>, reading the priority mark.\<close>
definition IsHighPriorityUnit :: "Scheduler \<Rightarrow> nat \<Rightarrow> bool" where
  "IsHighPriorityUnit sched u = highPriority (units sched u)"

text \<open>Modelled from the spec: \<open>MakeUnitHighPriority\<close>, setting the priority mark.\<close>
definition MakeUnitHighPriority :: "Scheduler \<Rightarrow> nat \<Rightarrow> Scheduler" where
  "MakeUnitHighPriority sched u =
     sched\<lparr>units := (units sched)(u := (units sched u)\<lparr>highPriority := True\<rparr>)\<rparr>"

text \<open>Modelled from the spec: \<open>Unit.FinishUnit\<close>, "mark complete"; each call is counted.\<close>
definition UnitFinishUnit :: "Scheduler \<Rightarrow> nat \<Rightarrow> Scheduler" where
  "UnitFinishUnit sched u =
     sched\<lparr>units := (units sched)(u := (units sched u)\<lparr>finished := Suc (finished (units sched u))\<rparr>)\<rparr>"

text \<open>
  \<open>Msg\<close>. The container of \<open>Data\<close> is an external type; the model keeps its content,
  the bytes in order, and covers messages whose \<open>Data\<close> is set. \<open>Unit\<close> is the
  reference to the message's unit in the scheduler.
\<close>

record Msg =
  FlowID :: "32 word"
  Type :: MsgType
  Data :: "byte list"
  Unit :: nat

text \<open>\<open>NewMsg\<close>: type Data, the given bytes, a fresh unit; the flow ID is unset.\<close>

definition NewMsg :: "Scheduler \<Rightarrow> byte list \<Rightarrow> Msg \<times> Scheduler" where
  "NewMsg sched bytes =
     (case NewUnit sched of
        (u, sched') \<Rightarrow> (\<lparr>FlowID = 0, Type = MsgTypeData, Data = bytes, Unit = u\<rparr>, sched'))"

text \<open>
  Modelled from the spec: \<open>MakeMsg\<close> (not part of the excerpt), which "prepends the
  message header (Length and ID+Type) to the data". The bytes of the header are a
  parameter, a function of the payload's length, the flow ID and the type.
\<close>
definition MakeMsg ::
  "(nat \<Rightarrow> 32 word \<Rightarrow> MsgType \<Rightarrow> byte list) \<Rightarrow> byte list \<Rightarrow> 32 word \<Rightarrow> MsgType \<Rightarrow> byte list" where
  "MakeMsg header c flowID msgType = header (length c) flowID msgType @ c"

definition Pack :: "(nat \<Rightarrow> 32 word \<Rightarrow> MsgType \<Rightarrow> byte list) \<Rightarrow> Msg \<Rightarrow> Msg" where
  "Pack header msg = msg\<lparr>Data := MakeMsg header (Data msg) (FlowID msg) (Type msg)\<rparr>"

text \<open>\<open>Msg.FinishUnit\<close>: a no-op on a nil message, else the unit's \<open>FinishUnit\<close>.\<close>

definition FinishUnit :: "Scheduler \<Rightarrow> Msg option \<Rightarrow> Scheduler" where
  "FinishUnit sched msg =
     (case msg of None \<Rightarrow> sched | Some m \<Rightarrow> UnitFinishUnit sched (Unit m))"

text \<open>
  \<open>Msg.Consume\<close>, for two distinct message objects: the scheduler, the consuming
  message and the consumed message after the call.
\<close>

definition Consume ::
  "(nat \<Rightarrow> 32 word \<Rightarrow> MsgType \<Rightarrow> byte list) \<Rightarrow> Scheduler \<Rightarrow> Msg \<Rightarrow> Msg \<Rightarrow>
   Scheduler \<times> Msg \<times> Msg" where
  "Consume header sched msg other =
     (let other' = Pack header other;
          msg' = msg\<lparr>Data := Data msg @ Data other'\<rparr>;
          sched' = (if IsHighPriorityUnit sched (Unit other')
                    then MakeUnitHighPriority sched (Unit msg') else sched)
      in (FinishUnit sched' (Some other'), msg', other'))"

section \<open>Docks: cranes and their terminals\<close>

text \<open>\<open>time.Duration\<close> counts nanoseconds.\<close>

definition Minute :: int where
  "Minute = 60 * 1000000000"

definition defaultTerminalIdleTimeout :: int where
  "defaultTerminalIdleTimeout = 15 * Minute"

definition remoteTerminalIdleTimeout :: int where
  "remoteTerminalIdleTimeout = 30 * Minute"

text \<open>A crane terminal, as far as the crane reads it: its ID and its idle timeout.\<close>

record CraneTerminal =
  TerminalID :: "32 word"
  idleTimeout :: int

text \<open>
  A crane. \<open>terminals\<close> is its map from flow IDs to terminals; \<open>terminalMsgs\<close> is the
  content of the channel of that name and \<open>terminalMsgsCap\<close> its capacity;
  \<open>abandonWorkers\<close> are the messages handed to an "abandon terminal" worker;
  \<open>lastSuggestedAt\<close> and \<open>stopping\<close> are its \<open>NetState\<close>.
\<close>

record Crane =
  Public :: bool
  terminals :: "32 word \<rightharpoonup> CraneTerminal"
  terminalMsgs :: "Msg list"
  terminalMsgsCap :: nat
  abandonWorkers :: "Msg list"
  lastSuggestedAt :: nat
  stopping :: bool

text \<open>
  Modelled from the spec: \<open>NewRemoteCraneTerminal\<close> (not part of the excerpt). It
  parses the init data and fails when that fails; the terminal it constructs has the
  given flow ID and the default idle timeout ("idle timeout (default 15 min ...)",
  "15 min otherwise").
\<close>
definition NewRemoteCraneTerminal ::
  "(byte list \<Rightarrow> 'terr option) \<Rightarrow> Crane \<Rightarrow> 32 word \<Rightarrow> byte list \<Rightarrow> 'terr + CraneTerminal" where
  "NewRemoteCraneTerminal parseInit crane flowID initData =
     (case parseInit initData of
        Some err \<Rightarrow> Inl err
      | None \<Rightarrow> Inr \<lparr>TerminalID = flowID, idleTimeout = defaultTerminalIdleTimeout\<rparr>)"

text \<open>Modelled from the spec: \<open>TerminalBase.SetTimeout(d)\<close>, setting the idle timeout.\<close>
definition SetTimeout :: "CraneTerminal \<Rightarrow> int \<Rightarrow> CraneTerminal" where
  "SetTimeout t d = t\<lparr>idleTimeout := d\<rparr>"

text \<open>Modelled from the spec: \<open>Crane.setTerminal\<close>, registering the terminal under its flow ID.\<close>
definition setTerminal :: "Crane \<Rightarrow> CraneTerminal \<Rightarrow> Crane" where
  "setTerminal crane t = crane\<lparr>terminals := (terminals crane)(TerminalID t \<mapsto> t)\<rparr>"

text \<open>
  \<open>Crane.establishTerminal\<close>. The constructor of the remote terminal is a parameter
  (\<open>NewRemoteCraneTerminal\<close> above is one). On success the terminal is registered, with
  the remote timeout on a public crane. On failure a Stop message with the packed error
  goes to \<open>terminalMsgs\<close> when the channel takes it at once, else to a worker.
\<close>

definition establishTerminal ::
  "(Crane \<Rightarrow> 32 word \<Rightarrow> byte list \<Rightarrow> 'terr + CraneTerminal) \<Rightarrow> ('terr \<Rightarrow> byte list) \<Rightarrow>
   Scheduler \<Rightarrow> Crane \<Rightarrow> 32 word \<Rightarrow> byte list \<Rightarrow> Scheduler \<times> Crane" where
  "establishTerminal newRemoteCraneTerminal packError sched crane flowID initData =
     (case newRemoteCraneTerminal crane flowID initData of
        Inr newTerminal \<Rightarrow>
          (sched,
           setTerminal crane
             (if Public crane then SetTimeout newTerminal remoteTerminalIdleTimeout
              else newTerminal))
      | Inl err \<Rightarrow>
          (case NewMsg sched (packError err) of
             (m, sched') \<Rightarrow>
               (let msg = m\<lparr>FlowID := flowID, Type := MsgTypeStop\<rparr> in
                if length (terminalMsgs crane) < terminalMsgsCap crane
                then (sched', crane\<lparr>terminalMsgs := terminalMsgs crane @ [msg]\<rparr>)
                else (sched', crane\<lparr>abandonWorkers := abandonWorkers crane @ [msg]\<rparr>))))"

section \<open>Captain: the authentication wait of connectToHomeHub\<close>

text \<open>
  Modelled from the spec: the codes of \<open>terminal.Error\<close> (package terminal, not part of
  the excerpt), "error kinds the core must distinguish (codes are the wire identity)".
\<close>
datatype ErrorCode = CodeExplicitAck | CodeStopping | CodeTimeout | CodeRemote nat

text \<open>
  Modelled from the spec: \<open>terminal.Error\<close>, "first-class values carrying a code and a
  wrappable cause"; the messages added by wrapping are kept, the newest first.
\<close>
record TerminalError =
  Code :: ErrorCode
  Messages :: "string list"

text \<open>Modelled from the spec: the sentinel \<open>terminal.ErrExplicitAck\<close>.\<close>
definition terminalErrExplicitAck :: TerminalError where
  "terminalErrExplicitAck = \<lparr>Code = CodeExplicitAck, Messages = []\<rparr>"

text \<open>Modelled from the spec: \<open>terminal.ErrStopping\<close>.\<close>
definition terminalErrStopping :: TerminalError where
  "terminalErrStopping = \<lparr>Code = CodeStopping, Messages = []\<rparr>"

text \<open>Modelled from the spec: \<open>terminal.ErrTimeout\<close>.\<close>
definition terminalErrTimeout :: TerminalError where
  "terminalErrTimeout = \<lparr>Code = CodeTimeout, Messages = []\<rparr>"

text \<open>Modelled from the spec: \<open>Error.Wrap\<close>, "every error supports Wrap(message) preserving code".\<close>
definition Wrap :: "TerminalError \<Rightarrow> string \<Rightarrow> TerminalError" where
  "Wrap tErr msg = tErr\<lparr>Messages := msg # Messages tErr\<rparr>"

text \<open>Modelled from the spec: \<open>Error.With\<close>, the error with a message added and its code kept.\<close>
definition With :: "TerminalError \<Rightarrow> string \<Rightarrow> TerminalError" where
  "With tErr msg = tErr\<lparr>Messages := msg # Messages tErr\<rparr>"

text \<open>Modelled from the spec: \<open>Error.Is\<close>, the comparison of the codes.\<close>
definition Is :: "TerminalError \<Rightarrow> TerminalError \<Rightarrow> bool" where
  "Is tErr target = (Code tErr = Code target)"

definition Second :: int where
  "Second = 1000000000"

text \<open>
  The three cases of the select that waits for the authentication: a value received from
  \<open>authOp.Ended\<close>, the timer of \<open>time.After(3 * time.Second)\<close>, and \<open>ctx.Done()\<close>.
\<close>

datatype SelectCase = CaseEnded TerminalError | CaseTimeAfter | CaseCtxDone

text \<open>
  What happens while the select waits, in nanoseconds from the moment it is entered: when
  \<open>authOp.Ended\<close> delivers and what, and when the context is cancelled, if ever.
\<close>

record AuthWait =
  endedAt :: "(int \<times> TerminalError) option"
  ctxDoneAt :: "int option"

text \<open>
  A select blocks until one of its cases can proceed and takes it. \<open>firstReady\<close> lists
  the cases that can proceed at the earliest moment any of them can; with more than one,
  Go takes one of them at random.
\<close>

definition readyAt :: "AuthWait \<Rightarrow> int" where
  "readyAt w =
     (let t = 3 * Second;
          t' = (case endedAt w of Some (te, tErr) \<Rightarrow> min t te | None \<Rightarrow> t)
      in (case ctxDoneAt w of Some tc \<Rightarrow> min t' tc | None \<Rightarrow> t'))"

definition firstReady :: "AuthWait \<Rightarrow> SelectCase list" where
  "firstReady w =
     (case endedAt w of
        Some (te, tErr) \<Rightarrow> if te = readyAt w then [CaseEnded tErr] else []
      | None \<Rightarrow> [])
     @ (if 3 * Second = readyAt w then [CaseTimeAfter] else [])
     @ (case ctxDoneAt w of
          Some tc \<Rightarrow> if tc = readyAt w then [CaseCtxDone] else []
        | None \<Rightarrow> [])"

text \<open>
  The bodies of the three cases: the error the function returns from the select, or
  \<open>None\<close> when it goes on after it.
\<close>

definition authSelect :: "SelectCase \<Rightarrow> TerminalError option" where
  "authSelect fired =
     (case fired of
        CaseEnded tErr \<Rightarrow>
          if \<not> Is tErr terminalErrExplicitAck then Some (Wrap tErr ''failed to authenticate to'')
          else None
      | CaseTimeAfter \<Rightarrow>
          Some (With terminalErrTimeout ''timed out waiting for auth to complete'')
      | CaseCtxDone \<Rightarrow> Some terminalErrStopping)"

text \<open>
  \<open>connectToHomeHub\<close> from "Authenticate to home hub" to its end, given the error of
  \<open>access.AuthorizeToTerminal\<close>, the case the select takes and whether \<open>SetHome\<close>
  succeeds: the error returned (\<open>None\<close> for nil; a Go error or a terminal error),
  whether the deferred function stopped the crane, and whether the crane was assigned.
  The deferred \<open>setExceptions(nil, nil)\<close> runs on every path and is left out.
\<close>

record ConnectResult =
  returned :: "(error + TerminalError) option"
  craneStopped :: bool
  craneAssigned :: bool

definition connectToHomeHubAuth ::
  "TerminalError option \<Rightarrow> SelectCase \<Rightarrow> bool \<Rightarrow> ConnectResult" where
  "connectToHomeHubAuth authorizeErr fired setHomeOk =
     (case authorizeErr of
        Some tErr \<Rightarrow>
          \<lparr>returned = Some (Inr (Wrap tErr ''failed to authorize'')), craneStopped = True,
           craneAssigned = False\<rparr>
      | None \<Rightarrow>
          (case authSelect fired of
             Some tErr \<Rightarrow>
               \<lparr>returned = Some (Inr tErr), craneStopped = True, craneAssigned = False\<rparr>
           | None \<Rightarrow>
               if \<not> setHomeOk then
                 \<lparr>returned = Some (Inl (ErrorNew ''failed to set home hub on map'')),
                  craneStopped = True, craneAssigned = False\<rparr>
               else \<lparr>returned = None, craneStopped = False, craneAssigned = True\<rparr>))"

section \<open>Captain: the connections of optimizeNetwork\<close>














section \<open>Sample inputs\<close>

text \<open>
  Concrete values on which the results below are run. Entities are numbers, an endpoint
  list pairs entities with verdicts, and a list matches an entity with the verdict of
  the first entry for it.
\<close>

definition sampleMatch :: "(nat \<times> EPResult) list \<Rightarrow> nat \<Rightarrow> EPResult \<times> string" where
  "sampleMatch list entity =
     (case map_of list entity of
        None \<Rightarrow> (NoMatch, [])
      | Some MatchError \<Rightarrow> (MatchError, ''geoip unavailable'')
      | Some r \<Rightarrow> (r, ''listed''))"

definition sampleMatchMulti ::
  "(nat \<times> EPResult) list \<Rightarrow> nat option \<Rightarrow> nat option \<Rightarrow> EPResult \<times> string" where
  "sampleMatchMulti list v4 v6 =
     (case v4 of
        Some e \<Rightarrow>
          (if fst (sampleMatch list e) \<noteq> NoMatch then sampleMatch list e
           else (case v6 of Some e6 \<Rightarrow> sampleMatch list e6 | None \<Rightarrow> (NoMatch, [])))
      | None \<Rightarrow> (case v6 of Some e6 \<Rightarrow> sampleMatch list e6 | None \<Rightarrow> (NoMatch, [])))"

definition sampleEndpoints :: "(nat \<times> EPResult, nat) Endpoints" where
  "sampleEndpoints =
     \<lparr>IsSet = (\<lambda>list. list \<noteq> []), MatchMulti = sampleMatchMulti, Match = sampleMatch\<rparr>"

definition samplePinStates :: "(16 word) PinStates" where
  "samplePinStates = \<lparr>
     StateReachable = 32,
     StateActive = 64,
     StateTrusted = 256,
     StateUsageAsHomeDiscouraged = 1024,
     StateUsageAsDestinationDiscouraged = 2048,
     StateConnectivityIssues = 8192,
     StateSummaryRegard = 96,
     StateSummaryDisregard = 4623 \<rparr>"

definition sampleOptions :: "(16 word, nat \<times> EPResult, nat) Options" where
  "sampleOptions = \<lparr>
     Regard = 32,
     Disregard = 16384,
     HubPolicies = [],
     CheckHubEntryPolicyWith = None,
     CheckHubExitPolicyWith = None,
     RequireVerifiedOwners = [],
     NoDefaults = False,
     RequireTrustedDestinationHubs = False,
     RoutingProfile = [] \<rparr>"

definition samplePin :: "(16 word, nat, nat \<times> EPResult, nat) Pin" where
  "samplePin = \<lparr>
     Hub = \<lparr>ID = 1, Info = \<lparr>EntryPolicy = [], ExitPolicy = []\<rparr>\<rparr>,
     State = 96,
     VerifiedOwner = [],
     EntityV4 = Some 4,
     EntityV6 = None \<rparr>"


text \<open>A hub intel whose hub advisory denies entity 4.\<close>

definition sampleIntel :: "(nat \<times> EPResult) Intel" where
  "sampleIntel =
     \<lparr>Parsed = Some \<lparr>HubAdvisory = [(4, Denied)], HomeHubAdvisory = [],
                      DestinationHubAdvisory = []\<rparr>\<rparr>"

text \<open>
  The endpoints interface with every MatchError of \<open>MatchMulti\<close> replaced by NoMatch:
  what "treated like NoMatch" is compared against.
\<close>

definition errorsAsNoMatch :: "('ep, 'ent) Endpoints \<Rightarrow> ('ep, 'ent) Endpoints" where
  "errorsAsNoMatch E =
     E\<lparr>MatchMulti := (\<lambda>policy v4 v6.
          (case MatchMulti E policy v4 v6 of
             (MatchError, reason) \<Rightarrow> (NoMatch, reason)
           | (result, reason) \<Rightarrow> (result, reason)))\<rparr>"

text \<open>Whether a device location is there and reports an IP.\<close>

definition hasIP :: "('ip, 'loc) DeviceLocation option \<Rightarrow> bool" where
  "hasIP dl = (case dl of None \<Rightarrow> False | Some d \<Rightarrow> IP d \<noteq> None)"

text \<open>
  Options that probe the exit policy with entity 7, a hub whose exit policy denies 7 and
  whose entry policy is unset, and a hub whose entry policy denies 7 and whose exit
  policy permits it.
\<close>

definition exitOptions :: "(16 word, nat \<times> EPResult, nat) Options" where
  "exitOptions = sampleOptions\<lparr>CheckHubExitPolicyWith := Some 7\<rparr>"

definition exitDenyingPin :: "(16 word, nat, nat \<times> EPResult, nat) Pin" where
  "exitDenyingPin =
     samplePin\<lparr>Hub := \<lparr>ID = 2, Info = \<lparr>EntryPolicy = [], ExitPolicy = [(7, Denied)]\<rparr>\<rparr>\<rparr>"

definition entryDenyingPin :: "(16 word, nat, nat \<times> EPResult, nat) Pin" where
  "entryDenyingPin =
     samplePin\<lparr>Hub := \<lparr>ID = 3, Info = \<lparr>EntryPolicy = [(7, Denied)], ExitPolicy = [(7, Permitted)]\<rparr>\<rparr>\<rparr>"


text \<open>
  A device without an IP on either family; a world whose map is empty at the first two
  searches and holds the hubs 5 and 6 from the third on, where every bootstrap succeeds
  and hub 5 refuses the connection; and the same world with a failing second bootstrap.
\<close>

definition sampleLocations :: "(nat, nat) DeviceLocations" where
  "sampleLocations = \<lparr>BestV4 = Some \<lparr>IP = None, Location = Some 1\<rparr>, BestV6 = None\<rparr>"

definition sampleWorld :: "(16 word, nat \<times> EPResult, nat, nat, nat, nat) World" where
  "sampleWorld = \<lparr>
     GetInternetLocation = Some sampleLocations,
     newEntity = (\<lambda>ip. ip),
     getHomeHubPolicy = Inr [],
     FindNearestHubs = (\<lambda>k v4 v6 opts hubType n. if k < 2 then Inl ErrEmptyMap else Inr [5, 6]),
     bootstrapWithUpdates = (\<lambda>k. None),
     connectToHomeHub = (\<lambda>hub. if hub = 5 then Some (ErrorNew ''unreachable'') else None) \<rparr>"

definition failingBootstrapWorld :: "(16 word, nat \<times> EPResult, nat, nat, nat, nat) World" where
  "failingBootstrapWorld =
     sampleWorld\<lparr>bootstrapWithUpdates :=
       (\<lambda>k. if k = 1 then Some (ErrorNew ''no bootstrap hubs'') else None)\<rparr>"

text \<open>
  A header of three bytes; a scheduler whose unit 1 is high priority; two messages.
\<close>

definition sampleHeader :: "nat \<Rightarrow> 32 word \<Rightarrow> MsgType \<Rightarrow> byte list" where
  "sampleHeader n flowID msgType =
     [of_nat n + 5, ucast flowID,
      (case msgType of MsgTypeInit \<Rightarrow> 1 | MsgTypeData \<Rightarrow> 2 | MsgTypeStop \<Rightarrow> 3)]"

definition sampleScheduler :: Scheduler where
  "sampleScheduler =
     \<lparr>units = (\<lambda>u. \<lparr>highPriority = (u = 1), finished = 0\<rparr>), issued = 2\<rparr>"

definition sampleMsg :: Msg where
  "sampleMsg = \<lparr>FlowID = 4, Type = MsgTypeData, Data = [1, 2], Unit = 0\<rparr>"

definition sampleOther :: Msg where
  "sampleOther = \<lparr>FlowID = 9, Type = MsgTypeData, Data = [3], Unit = 1\<rparr>"

text \<open>A public crane without terminals, and init data that parses.\<close>

definition sampleCrane :: Crane where
  "sampleCrane = \<lparr>
     Public = True,
     terminals = Map.empty,
     terminalMsgs = [],
     terminalMsgsCap = 1,
     abandonWorkers = [],
     lastSuggestedAt = 3,
     stopping = True \<rparr>"

definition sampleParseInit :: "byte list \<Rightarrow> string option" where
  "sampleParseInit initData = (if initData = [] then Some ''empty init data'' else None)"





text \<open>
  Three waits: the acknowledgement arrives after 2.999 s and the context is never
  cancelled; nothing ever arrives; the context is cancelled after 1 s, before an
  acknowledgement at 2 s.
\<close>

definition ackAt2999ms :: AuthWait where
  "ackAt2999ms = \<lparr>endedAt = Some (2999000000, terminalErrExplicitAck), ctxDoneAt = None\<rparr>"

definition neverEnded :: AuthWait where
  "neverEnded = \<lparr>endedAt = None, ctxDoneAt = None\<rparr>"

definition cancelledAt1s :: AuthWait where
  "cancelledAt1s = \<lparr>endedAt = Some (2000000000, terminalErrExplicitAck), ctxDoneAt = Some 1000000000\<rparr>"

section \<open>Results\<close>

subsection \<open>Unfolding the sample inputs and the matcher\<close>

lemmas sample_defs =
  sampleOptions_def samplePin_def samplePinStates_def sampleEndpoints_def sampleMatch_def
  sampleMatchMulti_def

lemmas matcher_defs =
  compiledRegard_def compiledDisregard_def defaultRegard_def defaultDisregard_def
  compiledPolicies_def Add_def Remove_def Has_def HasAnyOf_def ownersOk_def
  entryProbeDenied_def exitProbeDenied_def endpointListMatch_def matchWarning_def Let_def


subsection \<open>The policy loop\<close>

lemma policyCheck_unset: "\<not> IsSet E p \<Longrightarrow> policyCheck E v4 v6 (p # ps) = policyCheck E v4 v6 ps"
  by simp

lemma policyCheck_denied:
  "IsSet E p \<Longrightarrow> fst (MatchMulti E p v4 v6) = Denied \<Longrightarrow> policyCheck E v4 v6 (p # ps) = (False, [])"
  by (cases "MatchMulti E p v4 v6") simp

lemma policyCheck_permitted:
  "IsSet E p \<Longrightarrow> fst (MatchMulti E p v4 v6) = Permitted \<Longrightarrow> policyCheck E v4 v6 (p # ps) = (True, [])"
  by (cases "MatchMulti E p v4 v6") simp

lemma policyCheck_nomatch:
  "IsSet E p \<Longrightarrow> fst (MatchMulti E p v4 v6) = NoMatch \<Longrightarrow>
   policyCheck E v4 v6 (p # ps) = policyCheck E v4 v6 ps"
  by (cases "MatchMulti E p v4 v6") simp

lemma policyCheck_error:
  "IsSet E p \<Longrightarrow> MatchMulti E p v4 v6 = (MatchError, reason) \<Longrightarrow>
   policyCheck E v4 v6 (p # ps) =
     (fst (policyCheck E v4 v6 ps), matchWarning reason # snd (policyCheck E v4 v6 ps))"
  by simp

lemma policyCheck_errors_pass:
  "\<forall>p \<in> set ps. IsSet E p \<longrightarrow> fst (MatchMulti E p v4 v6) = MatchError \<Longrightarrow>
   fst (policyCheck E v4 v6 ps)"
proof (induction ps)
  case Nil
  show ?case by simp
next
  case (Cons p ps)
  then have rest: "fst (policyCheck E v4 v6 ps)" by simp
  show ?case
  proof (cases "IsSet E p")
    case False
    with rest show ?thesis by simp
  next
    case True
    with Cons.prems have "fst (MatchMulti E p v4 v6) = MatchError" by simp
    with True rest show ?thesis
      by (cases "MatchMulti E p v4 v6") simp
  qed
qed

lemma policyCheck_errorsAsNoMatch:
  "fst (policyCheck (errorsAsNoMatch E) v4 v6 ps) = fst (policyCheck E v4 v6 ps)"
proof (induction ps)
  case Nil
  show ?case by simp
next
  case (Cons p ps)
  obtain r reason where mm: "MatchMulti E p v4 v6 = (r, reason)"
    by (cases "MatchMulti E p v4 v6")
  show ?case
  proof (cases "IsSet E p")
    case False
    with Cons.IH show ?thesis by (simp add: errorsAsNoMatch_def)
  next
    case True
    with Cons.IH mm show ?thesis
      by (cases r) (simp_all add: errorsAsNoMatch_def)
  qed
qed

lemma Matcher_fst:
  "fst (Matcher E C opts hubType hubIntel pin) =
     (Has (State pin) (compiledRegard C opts hubType)
      \<and> \<not> HasAnyOf (State pin) (compiledDisregard C opts hubType)
      \<and> ownersOk (RequireVerifiedOwners opts) (VerifiedOwner pin)
      \<and> fst (policyCheck E (EntityV4 pin) (EntityV6 pin) (compiledPolicies opts hubType hubIntel))
      \<and> \<not> entryProbeDenied E (CheckHubEntryPolicyWith opts) pin
      \<and> \<not> exitProbeDenied E (CheckHubExitPolicyWith opts) pin)"
  by (simp add: Matcher_def Let_def split: prod.splits bool.splits)

lemma compiledPolicies_intel:
  "compiledPolicies opts hubType hubIntel = HubPolicies opts @ intelPolicies hubType hubIntel"
  by (simp add: compiledPolicies_def intelPolicies_def split: option.splits HubType.splits)

lemma Matcher_alt:
  "Matcher E C opts hubType hubIntel pin =
     (if Has (State pin) (compiledRegard C opts hubType)
         \<and> \<not> HasAnyOf (State pin) (compiledDisregard C opts hubType)
         \<and> ownersOk (RequireVerifiedOwners opts) (VerifiedOwner pin)
      then
        (fst (policyCheck E (EntityV4 pin) (EntityV6 pin)
               (HubPolicies opts @ intelPolicies hubType hubIntel))
           \<and> \<not> entryProbeDenied E (CheckHubEntryPolicyWith opts) pin
           \<and> \<not> exitProbeDenied E (CheckHubExitPolicyWith opts) pin,
         snd (policyCheck E (EntityV4 pin) (EntityV6 pin)
               (HubPolicies opts @ intelPolicies hubType hubIntel)))
      else (False, []))"
  by (simp add: Matcher_def compiledPolicies_intel Let_def split: prod.splits bool.splits)

lemma compiled_states_policies_update:
  "compiledRegard C (opts\<lparr>HubPolicies := ps\<rparr>) hubType = compiledRegard C opts hubType"
  "compiledDisregard C (opts\<lparr>HubPolicies := ps\<rparr>) hubType = compiledDisregard C opts hubType"
  by (simp_all add: compiledRegard_def compiledDisregard_def defaultRegard_def
      defaultDisregard_def)

lemma Matcher_head_denied:
  assumes "HubPolicies opts = p # ps" "IsSet E p"
    "fst (MatchMulti E p (EntityV4 pin) (EntityV6 pin)) = Denied"
  shows "\<not> fst (Matcher E C opts hubType hubIntel pin)"
  using assms by (simp add: Matcher_alt policyCheck_denied del: policyCheck.simps)

lemma Matcher_head_permitted:
  assumes "HubPolicies opts = p # ps" "IsSet E p"
    "fst (MatchMulti E p (EntityV4 pin) (EntityV6 pin)) = Permitted"
  shows "fst (Matcher E C opts hubType hubIntel pin) =
     (Has (State pin) (compiledRegard C opts hubType)
      \<and> \<not> HasAnyOf (State pin) (compiledDisregard C opts hubType)
      \<and> ownersOk (RequireVerifiedOwners opts) (VerifiedOwner pin)
      \<and> \<not> entryProbeDenied E (CheckHubEntryPolicyWith opts) pin
      \<and> \<not> exitProbeDenied E (CheckHubExitPolicyWith opts) pin)"
  using assms
  by (simp add: Matcher_fst compiledPolicies_intel policyCheck_permitted del: policyCheck.simps)

lemma Matcher_head_continue:
  assumes "HubPolicies opts = p # ps"
    and "\<not> IsSet E p \<or> fst (MatchMulti E p (EntityV4 pin) (EntityV6 pin)) = NoMatch"
  shows "Matcher E C opts hubType hubIntel pin =
     Matcher E C (opts\<lparr>HubPolicies := ps\<rparr>) hubType hubIntel pin"
proof -
  from assms(2) have "policyCheck E (EntityV4 pin) (EntityV6 pin) (p # ps @ intelPolicies hubType hubIntel)
      = policyCheck E (EntityV4 pin) (EntityV6 pin) (ps @ intelPolicies hubType hubIntel)"
    using policyCheck_unset policyCheck_nomatch by metis
  with assms(1) show ?thesis
    by (simp add: Matcher_alt compiled_states_policies_update del: policyCheck.simps)
qed

lemma Matcher_head_error:
  assumes "HubPolicies opts = p # ps" "IsSet E p"
    "MatchMulti E p (EntityV4 pin) (EntityV6 pin) = (MatchError, reason)"
  shows "fst (Matcher E C opts hubType hubIntel pin) =
           fst (Matcher E C (opts\<lparr>HubPolicies := ps\<rparr>) hubType hubIntel pin)
         \<and> snd (Matcher E C opts hubType hubIntel pin) =
           (if Has (State pin) (compiledRegard C opts hubType)
               \<and> \<not> HasAnyOf (State pin) (compiledDisregard C opts hubType)
               \<and> ownersOk (RequireVerifiedOwners opts) (VerifiedOwner pin)
            then matchWarning reason
                   # snd (Matcher E C (opts\<lparr>HubPolicies := ps\<rparr>) hubType hubIntel pin)
            else [])"
proof -
  from assms(2,3) have "policyCheck E (EntityV4 pin) (EntityV6 pin) (p # ps @ intelPolicies hubType hubIntel)
      = (fst (policyCheck E (EntityV4 pin) (EntityV6 pin) (ps @ intelPolicies hubType hubIntel)),
         matchWarning reason
           # snd (policyCheck E (EntityV4 pin) (EntityV6 pin) (ps @ intelPolicies hubType hubIntel)))"
    by (rule policyCheck_error)
  with assms(1) show ?thesis
    by (simp add: Matcher_alt compiled_states_policies_update del: policyCheck.simps)
qed

lemma Matcher_errors_pass:
  assumes "\<forall>p \<in> set (HubPolicies opts).
      IsSet E p \<longrightarrow> fst (MatchMulti E p (EntityV4 pin) (EntityV6 pin)) = MatchError"
  shows "fst (Matcher E C opts hubType None pin) =
     (Has (State pin) (compiledRegard C opts hubType)
      \<and> \<not> HasAnyOf (State pin) (compiledDisregard C opts hubType)
      \<and> ownersOk (RequireVerifiedOwners opts) (VerifiedOwner pin)
      \<and> \<not> entryProbeDenied E (CheckHubEntryPolicyWith opts) pin
      \<and> \<not> exitProbeDenied E (CheckHubExitPolicyWith opts) pin)"
  using policyCheck_errors_pass [OF assms]
  by (simp add: Matcher_fst compiledPolicies_intel intelPolicies_def)

lemma Matcher_advisory_denied:
  assumes "HubPolicies opts = []" "Parsed i = Some parsed" "IsSet E (HubAdvisory parsed)"
    "fst (MatchMulti E (HubAdvisory parsed) (EntityV4 pin) (EntityV6 pin)) = Denied"
  shows "\<not> fst (Matcher E C opts hubType (Some i) pin)"
proof -
  obtain rest where "intelPolicies hubType (Some i) = HubAdvisory parsed # rest"
    using assms(2) by (cases hubType) (simp_all add: intelPolicies_def)
  with assms show ?thesis
    by (simp add: Matcher_alt policyCheck_denied del: policyCheck.simps)
qed

text \<open>
  C2. The policy loop takes the set hub policies in order. A Denied result ends the loop
  and the matcher with false; a Permitted result ends the loop with the policies passed,
  and the checks after the loop still decide the matcher's result; NoMatch goes on to the
  next policy, and so does an unset policy; MatchError logs a warning and goes on as
  NoMatch does, so the loop's verdict is the one it has when every MatchError is replaced
  by NoMatch, and policies that are unset or produce MatchError alone let the pin pass.
  The same holds of the matcher on the options' \<open>HubPolicies\<close>: a Denied first policy
  makes it return false, a Permitted one leaves the decision to the checks besides the
  policies, an unset or NoMatch one gives the matcher of the remaining policies, a
  MatchError one gives that matcher's verdict with the warning logged in front, hub
  policies that can only produce MatchError reject no pin, and a denying hub advisory of
  the intel rejects the pin.
\<close>

theorem policy_loop_results:
  "(IsSet E pd \<and> fst (MatchMulti E pd v4 v6) = Denied \<longrightarrow>
      policyCheck E v4 v6 (pd # ps) = (False, []))
   \<and> (IsSet E pp \<and> fst (MatchMulti E pp v4 v6) = Permitted \<longrightarrow>
      policyCheck E v4 v6 (pp # ps) = (True, []))
   \<and> (IsSet E pn \<and> fst (MatchMulti E pn v4 v6) = NoMatch \<longrightarrow>
      policyCheck E v4 v6 (pn # ps) = policyCheck E v4 v6 ps)
   \<and> (IsSet E pe \<and> MatchMulti E pe v4 v6 = (MatchError, reason) \<longrightarrow>
      policyCheck E v4 v6 (pe # ps) =
        (fst (policyCheck E v4 v6 ps), matchWarning reason # snd (policyCheck E v4 v6 ps)))
   \<and> (\<not> IsSet E pu \<longrightarrow> policyCheck E v4 v6 (pu # ps) = policyCheck E v4 v6 ps)
   \<and> fst (policyCheck (errorsAsNoMatch E) v4 v6 ps) = fst (policyCheck E v4 v6 ps)
   \<and> ((\<forall>p \<in> set qs. IsSet E p \<longrightarrow> fst (MatchMulti E p v4 v6) = MatchError) \<longrightarrow>
      fst (policyCheck E v4 v6 qs))
   \<and> fst (Matcher E C opts hubType hubIntel pin) =
        (Has (State pin) (compiledRegard C opts hubType)
         \<and> \<not> HasAnyOf (State pin) (compiledDisregard C opts hubType)
         \<and> ownersOk (RequireVerifiedOwners opts) (VerifiedOwner pin)
         \<and> fst (policyCheck E (EntityV4 pin) (EntityV6 pin)
                  (compiledPolicies opts hubType hubIntel))
         \<and> \<not> entryProbeDenied E (CheckHubEntryPolicyWith opts) pin
         \<and> \<not> exitProbeDenied E (CheckHubExitPolicyWith opts) pin)
   \<and> (HubPolicies optsD = pd # ps \<and> IsSet E pd \<and> fst (MatchMulti E pd (EntityV4 pin) (EntityV6 pin)) = Denied \<longrightarrow>
      \<not> fst (Matcher E C optsD hubType hubIntel pin))
   \<and> (HubPolicies optsP = pp # ps \<and> IsSet E pp \<and> fst (MatchMulti E pp (EntityV4 pin) (EntityV6 pin)) = Permitted \<longrightarrow>
      fst (Matcher E C optsP hubType hubIntel pin) =
        (Has (State pin) (compiledRegard C optsP hubType)
         \<and> \<not> HasAnyOf (State pin) (compiledDisregard C optsP hubType)
         \<and> ownersOk (RequireVerifiedOwners optsP) (VerifiedOwner pin)
         \<and> \<not> entryProbeDenied E (CheckHubEntryPolicyWith optsP) pin
         \<and> \<not> exitProbeDenied E (CheckHubExitPolicyWith optsP) pin))
   \<and> (HubPolicies optsN = pn # ps \<and> IsSet E pn \<and> fst (MatchMulti E pn (EntityV4 pin) (EntityV6 pin)) = NoMatch \<longrightarrow>
      Matcher E C optsN hubType hubIntel pin =
        Matcher E C (optsN\<lparr>HubPolicies := ps\<rparr>) hubType hubIntel pin)
   \<and> (HubPolicies optsU = pu # ps \<and> \<not> IsSet E pu \<longrightarrow>
      Matcher E C optsU hubType hubIntel pin =
        Matcher E C (optsU\<lparr>HubPolicies := ps\<rparr>) hubType hubIntel pin)
   \<and> (HubPolicies optsE = pe # ps \<and> IsSet E pe \<and> MatchMulti E pe (EntityV4 pin) (EntityV6 pin) = (MatchError, reason) \<longrightarrow>
      fst (Matcher E C optsE hubType hubIntel pin) =
          fst (Matcher E C (optsE\<lparr>HubPolicies := ps\<rparr>) hubType hubIntel pin)
        \<and> snd (Matcher E C optsE hubType hubIntel pin) =
          (if Has (State pin) (compiledRegard C optsE hubType)
               \<and> \<not> HasAnyOf (State pin) (compiledDisregard C optsE hubType)
               \<and> ownersOk (RequireVerifiedOwners optsE) (VerifiedOwner pin)
           then matchWarning reason
                  # snd (Matcher E C (optsE\<lparr>HubPolicies := ps\<rparr>) hubType hubIntel pin)
           else []))
   \<and> ((\<forall>p \<in> set (HubPolicies optsQ). IsSet E p \<longrightarrow> fst (MatchMulti E p (EntityV4 pin) (EntityV6 pin)) = MatchError) \<longrightarrow>
      fst (Matcher E C optsQ hubType None pin) =
        (Has (State pin) (compiledRegard C optsQ hubType)
         \<and> \<not> HasAnyOf (State pin) (compiledDisregard C optsQ hubType)
         \<and> ownersOk (RequireVerifiedOwners optsQ) (VerifiedOwner pin)
         \<and> \<not> entryProbeDenied E (CheckHubEntryPolicyWith optsQ) pin
         \<and> \<not> exitProbeDenied E (CheckHubExitPolicyWith optsQ) pin))
   \<and> (HubPolicies optsA = [] \<and> Parsed i = Some parsed \<and> IsSet E (HubAdvisory parsed)
      \<and> fst (MatchMulti E (HubAdvisory parsed) (EntityV4 pin) (EntityV6 pin)) = Denied \<longrightarrow>
      \<not> fst (Matcher E C optsA hubType (Some i) pin))"
proof (intro conjI impI)
  show "policyCheck E v4 v6 (pd # ps) = (False, [])"
    if "IsSet E pd \<and> fst (MatchMulti E pd v4 v6) = Denied"
    using that policyCheck_denied [of E pd v4 v6 ps] by blast
  show "policyCheck E v4 v6 (pp # ps) = (True, [])"
    if "IsSet E pp \<and> fst (MatchMulti E pp v4 v6) = Permitted"
    using that policyCheck_permitted [of E pp v4 v6 ps] by blast
  show "policyCheck E v4 v6 (pn # ps) = policyCheck E v4 v6 ps"
    if "IsSet E pn \<and> fst (MatchMulti E pn v4 v6) = NoMatch"
    using that policyCheck_nomatch [of E pn v4 v6 ps] by blast
  show "policyCheck E v4 v6 (pe # ps) =
        (fst (policyCheck E v4 v6 ps), matchWarning reason # snd (policyCheck E v4 v6 ps))"
    if "IsSet E pe \<and> MatchMulti E pe v4 v6 = (MatchError, reason)"
    using that policyCheck_error [of E pe v4 v6 reason ps] by blast
  show "policyCheck E v4 v6 (pu # ps) = policyCheck E v4 v6 ps" if "\<not> IsSet E pu"
    using that by (rule policyCheck_unset)
  show "fst (policyCheck (errorsAsNoMatch E) v4 v6 ps) = fst (policyCheck E v4 v6 ps)"
    by (rule policyCheck_errorsAsNoMatch)
  show "fst (policyCheck E v4 v6 qs)"
    if "\<forall>p \<in> set qs. IsSet E p \<longrightarrow> fst (MatchMulti E p v4 v6) = MatchError"
    using that by (rule policyCheck_errors_pass)
  show "fst (Matcher E C opts hubType hubIntel pin) =
        (Has (State pin) (compiledRegard C opts hubType)
         \<and> \<not> HasAnyOf (State pin) (compiledDisregard C opts hubType)
         \<and> ownersOk (RequireVerifiedOwners opts) (VerifiedOwner pin)
         \<and> fst (policyCheck E (EntityV4 pin) (EntityV6 pin)
                  (compiledPolicies opts hubType hubIntel))
         \<and> \<not> entryProbeDenied E (CheckHubEntryPolicyWith opts) pin
         \<and> \<not> exitProbeDenied E (CheckHubExitPolicyWith opts) pin)"
    by (rule Matcher_fst)
  show "\<not> fst (Matcher E C optsD hubType hubIntel pin)"
    if "HubPolicies optsD = pd # ps \<and> IsSet E pd \<and> fst (MatchMulti E pd (EntityV4 pin) (EntityV6 pin)) = Denied"
    using that by (simp add: Matcher_head_denied)
  show "fst (Matcher E C optsP hubType hubIntel pin) =
        (Has (State pin) (compiledRegard C optsP hubType)
         \<and> \<not> HasAnyOf (State pin) (compiledDisregard C optsP hubType)
         \<and> ownersOk (RequireVerifiedOwners optsP) (VerifiedOwner pin)
         \<and> \<not> entryProbeDenied E (CheckHubEntryPolicyWith optsP) pin
         \<and> \<not> exitProbeDenied E (CheckHubExitPolicyWith optsP) pin)"
    if "HubPolicies optsP = pp # ps \<and> IsSet E pp \<and> fst (MatchMulti E pp (EntityV4 pin) (EntityV6 pin)) = Permitted"
    using that Matcher_head_permitted [of optsP pp ps E pin C hubType hubIntel] by blast
  show "Matcher E C optsN hubType hubIntel pin =
        Matcher E C (optsN\<lparr>HubPolicies := ps\<rparr>) hubType hubIntel pin"
    if "HubPolicies optsN = pn # ps \<and> IsSet E pn \<and> fst (MatchMulti E pn (EntityV4 pin) (EntityV6 pin)) = NoMatch"
    using that by (simp add: Matcher_head_continue)
  show "Matcher E C optsU hubType hubIntel pin =
        Matcher E C (optsU\<lparr>HubPolicies := ps\<rparr>) hubType hubIntel pin"
    if "HubPolicies optsU = pu # ps \<and> \<not> IsSet E pu"
    using that by (simp add: Matcher_head_continue)
  show "fst (Matcher E C optsE hubType hubIntel pin) =
          fst (Matcher E C (optsE\<lparr>HubPolicies := ps\<rparr>) hubType hubIntel pin)"
    if "HubPolicies optsE = pe # ps \<and> IsSet E pe \<and> MatchMulti E pe (EntityV4 pin) (EntityV6 pin) = (MatchError, reason)"
    using that Matcher_head_error [of optsE pe ps E pin reason C hubType hubIntel] by blast
  show "snd (Matcher E C optsE hubType hubIntel pin) =
          (if Has (State pin) (compiledRegard C optsE hubType)
               \<and> \<not> HasAnyOf (State pin) (compiledDisregard C optsE hubType)
               \<and> ownersOk (RequireVerifiedOwners optsE) (VerifiedOwner pin)
           then matchWarning reason
                  # snd (Matcher E C (optsE\<lparr>HubPolicies := ps\<rparr>) hubType hubIntel pin)
           else [])"
    if "HubPolicies optsE = pe # ps \<and> IsSet E pe \<and> MatchMulti E pe (EntityV4 pin) (EntityV6 pin) = (MatchError, reason)"
    using that Matcher_head_error [of optsE pe ps E pin reason C hubType hubIntel] by blast
  show "fst (Matcher E C optsQ hubType None pin) =
        (Has (State pin) (compiledRegard C optsQ hubType)
         \<and> \<not> HasAnyOf (State pin) (compiledDisregard C optsQ hubType)
         \<and> ownersOk (RequireVerifiedOwners optsQ) (VerifiedOwner pin)
         \<and> \<not> entryProbeDenied E (CheckHubEntryPolicyWith optsQ) pin
         \<and> \<not> exitProbeDenied E (CheckHubExitPolicyWith optsQ) pin)"
    if "(\<forall>p \<in> set (HubPolicies optsQ). IsSet E p \<longrightarrow> fst (MatchMulti E p (EntityV4 pin) (EntityV6 pin)) = MatchError)"
    using that by (rule Matcher_errors_pass)
  show "\<not> fst (Matcher E C optsA hubType (Some i) pin)"
    if "HubPolicies optsA = [] \<and> Parsed i = Some parsed \<and> IsSet E (HubAdvisory parsed)
      \<and> fst (MatchMulti E (HubAdvisory parsed) (EntityV4 pin) (EntityV6 pin)) = Denied"
    using that by (simp add: Matcher_advisory_denied)
qed

theorem policy_loop_results_witness:
  "policyCheck sampleEndpoints (Some 4) None [[(4, Denied)], [(4, Denied)]] = (False, [])
   \<and> policyCheck sampleEndpoints (Some 4) None [[(4, Permitted)], [(4, Denied)]] = (True, [])
   \<and> policyCheck sampleEndpoints (Some 4) None [[(5, Denied)], [(4, Denied)]] = (False, [])
   \<and> policyCheck sampleEndpoints (Some 4) None [[(4, MatchError)], [(4, Denied)]] =
       (False, [''spn/navigator: failed to match policy: geoip unavailable''])
   \<and> policyCheck sampleEndpoints (Some 4) None [[], [(4, Denied)]] = (False, [])
   \<and> fst (policyCheck sampleEndpoints (Some 4) None [[(4, MatchError)], []])
   \<and> fst (Matcher sampleEndpoints samplePinStates
            (sampleOptions\<lparr>HubPolicies := [[(4, MatchError)], []]\<rparr>) TransitHub None samplePin)
   \<and> \<not> fst (Matcher sampleEndpoints samplePinStates
            (sampleOptions\<lparr>HubPolicies := [[(4, Denied)], [(4, Denied)]]\<rparr>) TransitHub None
            samplePin)
   \<and> fst (Matcher sampleEndpoints samplePinStates
            (sampleOptions\<lparr>HubPolicies := [[(4, Permitted)], [(4, Denied)]]\<rparr>) TransitHub None
            samplePin)
   \<and> Matcher sampleEndpoints samplePinStates
        (sampleOptions\<lparr>HubPolicies := [[(5, Denied)], [(4, Denied)]]\<rparr>) TransitHub None samplePin =
       (False, [])
   \<and> Matcher sampleEndpoints samplePinStates
        (sampleOptions\<lparr>HubPolicies := [[], [(4, Denied)]]\<rparr>) TransitHub None samplePin =
       (False, [])
   \<and> Matcher sampleEndpoints samplePinStates
        (sampleOptions\<lparr>HubPolicies := [[(4, MatchError)], [(4, Denied)]]\<rparr>) TransitHub None
        samplePin =
       (False, [''spn/navigator: failed to match policy: geoip unavailable''])
   \<and> \<not> fst (Matcher sampleEndpoints samplePinStates sampleOptions TransitHub
            (Some sampleIntel) samplePin)"
  using policy_loop_results [where E = sampleEndpoints and ?v4.0 = "Some 4" and ?v6.0 = None
      and pd = "[(4, Denied)]" and pp = "[(4, Permitted)]" and pn = "[(5, Denied)]"
      and pe = "[(4, MatchError)]" and reason = "''geoip unavailable''" and pu = "[]"
      and ps = "[[(4, Denied)]]" and qs = "[[(4, MatchError)], []]" and C = samplePinStates
      and opts = "sampleOptions\<lparr>HubPolicies := [[(4, MatchError)], []]\<rparr>"
      and hubType = TransitHub and hubIntel = None and pin = samplePin
      and optsD = "sampleOptions\<lparr>HubPolicies := [[(4, Denied)], [(4, Denied)]]\<rparr>"
      and optsP = "sampleOptions\<lparr>HubPolicies := [[(4, Permitted)], [(4, Denied)]]\<rparr>"
      and optsN = "sampleOptions\<lparr>HubPolicies := [[(5, Denied)], [(4, Denied)]]\<rparr>"
      and optsU = "sampleOptions\<lparr>HubPolicies := [[], [(4, Denied)]]\<rparr>"
      and optsE = "sampleOptions\<lparr>HubPolicies := [[(4, MatchError)], [(4, Denied)]]\<rparr>"
      and optsQ = "sampleOptions\<lparr>HubPolicies := [[(4, MatchError)], []]\<rparr>"
      and optsA = sampleOptions and i = sampleIntel
      and parsed = "\<lparr>HubAdvisory = [(4, Denied)], HomeHubAdvisory = [],
                      DestinationHubAdvisory = []\<rparr>"]
  by (simp add: sample_defs matcher_defs Matcher_def sampleIntel_def)

text \<open>
  C3. Without \<open>NoDefaults\<close>, \<open>Matcher\<close> adds StateSummaryRegard to Regard and
  StateSummaryDisregard to Disregard; then for a home hub it removes StateReachable and
  StateActive from Regard and adds StateUsageAsHomeDiscouraged to Disregard, for a
  transit hub it adds nothing, and for a destination hub it adds
  StateUsageAsDestinationDiscouraged and StateConnectivityIssues to Disregard. With
  \<open>NoDefaults\<close> none of these is added: Disregard is the caller's, and so is Regard,
  but for the Trusted state required of destination hubs. These are the states the
  compiled matcher checks a pin against: it accepts a pin exactly when the pin has all
  of the regard states so compiled and none of the disregard states, and passes the
  owner, policy and entry/exit checks.
\<close>

theorem Matcher_default_states:
  "(\<not> NoDefaults opts \<longrightarrow>
      compiledRegard C opts HomeHub =
        Remove (Remove (Add (Regard opts) (StateSummaryRegard C)) (StateReachable C)) (StateActive C)
    \<and> compiledDisregard C opts HomeHub =
        Add (Add (Disregard opts) (StateSummaryDisregard C)) (StateUsageAsHomeDiscouraged C)
    \<and> compiledRegard C opts TransitHub = Add (Regard opts) (StateSummaryRegard C)
    \<and> compiledDisregard C opts TransitHub = Add (Disregard opts) (StateSummaryDisregard C)
    \<and> compiledRegard C opts DestinationHub =
        (if RequireTrustedDestinationHubs opts
         then Add (Regard opts) (StateSummaryRegard C) OR StateTrusted C
         else Add (Regard opts) (StateSummaryRegard C))
    \<and> compiledDisregard C opts DestinationHub =
        Add (Add (Add (Disregard opts) (StateSummaryDisregard C))
               (StateUsageAsDestinationDiscouraged C))
          (StateConnectivityIssues C))
   \<and> (NoDefaults opts \<longrightarrow>
      compiledRegard C opts hubType =
        (if RequireTrustedDestinationHubs opts \<and> hubType = DestinationHub
         then Regard opts OR StateTrusted C else Regard opts)
    \<and> compiledDisregard C opts hubType = Disregard opts)
   \<and> (\<not> NoDefaults opts \<longrightarrow>
      fst (Matcher E C opts HomeHub hubIntel pin) =
          (Has (State pin)
             (Remove (Remove (Add (Regard opts) (StateSummaryRegard C)) (StateReachable C))
                (StateActive C))
           \<and> \<not> HasAnyOf (State pin)
               (Add (Add (Disregard opts) (StateSummaryDisregard C))
                  (StateUsageAsHomeDiscouraged C))
           \<and> ownersOk (RequireVerifiedOwners opts) (VerifiedOwner pin)
           \<and> fst (policyCheck E (EntityV4 pin) (EntityV6 pin)
                    (compiledPolicies opts HomeHub hubIntel))
           \<and> \<not> entryProbeDenied E (CheckHubEntryPolicyWith opts) pin
           \<and> \<not> exitProbeDenied E (CheckHubExitPolicyWith opts) pin)
    \<and> fst (Matcher E C opts TransitHub hubIntel pin) =
          (Has (State pin) (Add (Regard opts) (StateSummaryRegard C))
           \<and> \<not> HasAnyOf (State pin) (Add (Disregard opts) (StateSummaryDisregard C))
           \<and> ownersOk (RequireVerifiedOwners opts) (VerifiedOwner pin)
           \<and> fst (policyCheck E (EntityV4 pin) (EntityV6 pin)
                    (compiledPolicies opts TransitHub hubIntel))
           \<and> \<not> entryProbeDenied E (CheckHubEntryPolicyWith opts) pin
           \<and> \<not> exitProbeDenied E (CheckHubExitPolicyWith opts) pin)
    \<and> fst (Matcher E C opts DestinationHub hubIntel pin) =
          (Has (State pin)
             (if RequireTrustedDestinationHubs opts
              then Add (Regard opts) (StateSummaryRegard C) OR StateTrusted C
              else Add (Regard opts) (StateSummaryRegard C))
           \<and> \<not> HasAnyOf (State pin)
               (Add (Add (Add (Disregard opts) (StateSummaryDisregard C))
                      (StateUsageAsDestinationDiscouraged C))
                  (StateConnectivityIssues C))
           \<and> ownersOk (RequireVerifiedOwners opts) (VerifiedOwner pin)
           \<and> fst (policyCheck E (EntityV4 pin) (EntityV6 pin)
                    (compiledPolicies opts DestinationHub hubIntel))
           \<and> \<not> entryProbeDenied E (CheckHubEntryPolicyWith opts) pin
           \<and> \<not> exitProbeDenied E (CheckHubExitPolicyWith opts) pin))
   \<and> (NoDefaults opts \<longrightarrow>
      fst (Matcher E C opts hubType hubIntel pin) =
          (Has (State pin)
             (if RequireTrustedDestinationHubs opts \<and> hubType = DestinationHub
              then Regard opts OR StateTrusted C else Regard opts)
           \<and> \<not> HasAnyOf (State pin) (Disregard opts)
           \<and> ownersOk (RequireVerifiedOwners opts) (VerifiedOwner pin)
           \<and> fst (policyCheck E (EntityV4 pin) (EntityV6 pin)
                    (compiledPolicies opts hubType hubIntel))
           \<and> \<not> entryProbeDenied E (CheckHubEntryPolicyWith opts) pin
           \<and> \<not> exitProbeDenied E (CheckHubExitPolicyWith opts) pin))"
  by (simp add: Matcher_fst compiledRegard_def compiledDisregard_def defaultRegard_def
      defaultDisregard_def Let_def)

theorem Matcher_default_states_witness:
  "compiledRegard samplePinStates sampleOptions HomeHub = 0
   \<and> compiledDisregard samplePinStates sampleOptions HomeHub = 22031
   \<and> compiledRegard samplePinStates sampleOptions TransitHub = 96
   \<and> compiledDisregard samplePinStates sampleOptions TransitHub = 21007
   \<and> compiledRegard samplePinStates sampleOptions DestinationHub = 96
   \<and> compiledDisregard samplePinStates sampleOptions DestinationHub = 31247
   \<and> compiledRegard samplePinStates (sampleOptions\<lparr>NoDefaults := True\<rparr>) HomeHub = 32
   \<and> compiledDisregard samplePinStates (sampleOptions\<lparr>NoDefaults := True\<rparr>) HomeHub = 16384
   \<and> fst (Matcher sampleEndpoints samplePinStates sampleOptions HomeHub None
          (samplePin\<lparr>State := 0\<rparr>))
   \<and> \<not> fst (Matcher sampleEndpoints samplePinStates sampleOptions TransitHub None
          (samplePin\<lparr>State := 0\<rparr>))
   \<and> \<not> fst (Matcher sampleEndpoints samplePinStates sampleOptions HomeHub None
          (samplePin\<lparr>State := 1120\<rparr>))
   \<and> fst (Matcher sampleEndpoints samplePinStates sampleOptions TransitHub None
          (samplePin\<lparr>State := 1120\<rparr>))
   \<and> \<not> fst (Matcher sampleEndpoints samplePinStates sampleOptions DestinationHub None
          (samplePin\<lparr>State := 8288\<rparr>))
   \<and> fst (Matcher sampleEndpoints samplePinStates sampleOptions TransitHub None
          (samplePin\<lparr>State := 8288\<rparr>))
   \<and> \<not> fst (Matcher sampleEndpoints samplePinStates sampleOptions TransitHub None
          (samplePin\<lparr>State := 33\<rparr>))
   \<and> fst (Matcher sampleEndpoints samplePinStates (sampleOptions\<lparr>NoDefaults := True\<rparr>)
          TransitHub None (samplePin\<lparr>State := 33\<rparr>))"
  using Matcher_default_states [where opts = sampleOptions and C = samplePinStates
      and hubType = HomeHub and E = sampleEndpoints and hubIntel = None
      and pin = "samplePin\<lparr>State := 1120\<rparr>"]
    Matcher_default_states [where opts = "sampleOptions\<lparr>NoDefaults := True\<rparr>"
      and C = samplePinStates and hubType = TransitHub and E = sampleEndpoints
      and hubIntel = None and pin = "samplePin\<lparr>State := 33\<rparr>"]
  by (simp add: sample_defs matcher_defs Matcher_def)

text \<open>
  C1, evaluated on the code. With \<open>CheckHubExitPolicyWith\<close> set to an entity that the
  hub's exit policy denies and the hub's entry policy unset, the matcher accepts the pin;
  with an entity that the exit policy permits and the entry policy denies, it rejects the
  pin: the exit probe is decided by the hub's entry policy.
\<close>

theorem exit_probe_reads_entry_policy:
  "fst (Matcher sampleEndpoints samplePinStates exitOptions TransitHub None exitDenyingPin)
   \<and> endpointListMatch sampleEndpoints (ExitPolicy (Info (Hub exitDenyingPin)))
        (CheckHubExitPolicyWith exitOptions) = Denied
   \<and> \<not> fst (Matcher sampleEndpoints samplePinStates exitOptions TransitHub None entryDenyingPin)
   \<and> endpointListMatch sampleEndpoints (ExitPolicy (Info (Hub entryDenyingPin)))
        (CheckHubExitPolicyWith exitOptions) = Permitted"
  by (simp add: Matcher_def exitOptions_def exitDenyingPin_def entryDenyingPin_def
      sampleOptions_def samplePin_def samplePinStates_def sampleEndpoints_def sampleMatch_def
      compiledRegard_def compiledDisregard_def defaultRegard_def defaultDisregard_def
      compiledPolicies_def Add_def Remove_def Has_def HasAnyOf_def ownersOk_def
      entryProbeDenied_def exitProbeDenied_def endpointListMatch_def Let_def)

theorem exit_probe_reads_entry_policy_witness:
  "fst (Matcher sampleEndpoints samplePinStates exitOptions TransitHub None exitDenyingPin)
   \<and> fst (Match sampleEndpoints (ExitPolicy (Info (Hub exitDenyingPin))) 7) = Denied"
  using exit_probe_reads_entry_policy
  by (simp add: exitDenyingPin_def samplePin_def sampleEndpoints_def sampleMatch_def)

text \<open>
  C10. A matcher whose \<open>CheckHubEntryPolicyWith\<close> is nil makes no entry-policy probe:
  the entry check never denies, and the result is decided by the other checks. In
  \<open>establishHomeHub\<close>, when neither the best v4 nor the best v6 location reports an
  IP, the entity is nil, the search for candidates is made with options that carry no
  entity, and a matcher compiled from these options gives the same answer whatever the
  policies of the pin's hub are.
\<close>

theorem no_entity_no_entry_probe:
  "(CheckHubEntryPolicyWith opts = None \<longrightarrow>
      \<not> entryProbeDenied E (CheckHubEntryPolicyWith opts) pin
      \<and> fst (Matcher E C opts hubType hubIntel pin) =
          (Has (State pin) (compiledRegard C opts hubType)
           \<and> \<not> HasAnyOf (State pin) (compiledDisregard C opts hubType)
           \<and> ownersOk (RequireVerifiedOwners opts) (VerifiedOwner pin)
           \<and> fst (policyCheck E (EntityV4 pin) (EntityV6 pin)
                    (compiledPolicies opts hubType hubIntel))
           \<and> \<not> exitProbeDenied E (CheckHubExitPolicyWith opts) pin))
   \<and> (GetInternetLocation w = Some locations \<and> \<not> hasIP (BestV4 locations)
        \<and> \<not> hasIP (BestV6 locations) \<longrightarrow>
      myEntity (newEntity w) locations = None
      \<and> establishHomeHub w =
          establishHomeHub
            (w\<lparr>FindNearestHubs := (\<lambda>k v4 v6 opts'.
                 FindNearestHubs w k v4 v6 (opts'\<lparr>CheckHubEntryPolicyWith := None\<rparr>))\<rparr>)
      \<and> Matcher E C (homeHubOptions homePolicy (myEntity (newEntity w) locations)) hubType hubIntel
            (pin\<lparr>Hub := hub'\<rparr>) =
          Matcher E C (homeHubOptions homePolicy (myEntity (newEntity w) locations)) hubType
            hubIntel pin)"
proof (intro conjI impI)
  assume nil: "CheckHubEntryPolicyWith opts = None"
  then show "\<not> entryProbeDenied E (CheckHubEntryPolicyWith opts) pin"
    by (simp add: entryProbeDenied_def)
  from nil show "fst (Matcher E C opts hubType hubIntel pin) =
          (Has (State pin) (compiledRegard C opts hubType)
           \<and> \<not> HasAnyOf (State pin) (compiledDisregard C opts hubType)
           \<and> ownersOk (RequireVerifiedOwners opts) (VerifiedOwner pin)
           \<and> fst (policyCheck E (EntityV4 pin) (EntityV6 pin)
                    (compiledPolicies opts hubType hubIntel))
           \<and> \<not> exitProbeDenied E (CheckHubExitPolicyWith opts) pin)"
    by (simp add: Matcher_fst entryProbeDenied_def)
next
  assume a: "GetInternetLocation w = Some locations \<and> \<not> hasIP (BestV4 locations)
        \<and> \<not> hasIP (BestV6 locations)"
  then show none: "myEntity (newEntity w) locations = None"
    by (auto simp: myEntity_def hasIP_def split: option.splits)
  from a none show "establishHomeHub w =
          establishHomeHub
            (w\<lparr>FindNearestHubs := (\<lambda>k v4 v6 opts'.
                 FindNearestHubs w k v4 v6 (opts'\<lparr>CheckHubEntryPolicyWith := None\<rparr>))\<rparr>)"
    by (auto simp: establishHomeHub_def homeHubOptions_def Let_def
        split: option.splits sum.splits prod.splits)
  from none show "Matcher E C (homeHubOptions homePolicy (myEntity (newEntity w) locations)) hubType hubIntel
            (pin\<lparr>Hub := hub'\<rparr>) =
          Matcher E C (homeHubOptions homePolicy (myEntity (newEntity w) locations)) hubType
            hubIntel pin"
    by (simp add: Matcher_def homeHubOptions_def entryProbeDenied_def exitProbeDenied_def
        split: prod.splits bool.splits)
qed

theorem no_entity_no_entry_probe_witness:
  "myEntity (newEntity sampleWorld) sampleLocations = None
   \<and> \<not> entryProbeDenied sampleEndpoints None entryDenyingPin
   \<and> fst (Matcher sampleEndpoints samplePinStates (homeHubOptions [] None) HomeHub None
          entryDenyingPin)
   \<and> establishHomeHub sampleWorld =
       establishHomeHub
         (sampleWorld\<lparr>FindNearestHubs := (\<lambda>k v4 v6 opts'.
            FindNearestHubs sampleWorld k v4 v6 (opts'\<lparr>CheckHubEntryPolicyWith := None\<rparr>))\<rparr>)"
  using no_entity_no_entry_probe [where opts = "homeHubOptions [] None" and E = sampleEndpoints
      and pin = entryDenyingPin and C = samplePinStates and hubType = HomeHub and hubIntel = None
      and w = sampleWorld and locations = sampleLocations and homePolicy = "[]"
      and hub' = "Hub samplePin"]
  by (simp add: sample_defs matcher_defs homeHubOptions_def entryDenyingPin_def hasIP_def
      sampleWorld_def sampleLocations_def myEntity_def)

subsection \<open>The home hub search\<close>

lemma findCandidates_step:
  "search n = Inl err \<Longrightarrow> errorsIs err ErrEmptyMap \<Longrightarrow> bootstrap n = None \<Longrightarrow>
   findCandidates search bootstrap n = findCandidates search bootstrap (Suc n)"
  by (subst findCandidates.simps) simp

lemma findCandidates_skip:
  "\<forall>k<n. (\<exists>err. search k = Inl err \<and> errorsIs err ErrEmptyMap) \<and> bootstrap k = None \<Longrightarrow>
   findCandidates search bootstrap 0 = findCandidates search bootstrap n"
proof (induction n)
  case 0
  show ?case by simp
next
  case (Suc n)
  then have "findCandidates search bootstrap 0 = findCandidates search bootstrap n"
    by simp
  moreover from Suc.prems obtain err
    where "search n = Inl err" "errorsIs err ErrEmptyMap" "bootstrap n = None"
    by auto
  then have "findCandidates search bootstrap n = findCandidates search bootstrap (Suc n)"
    by (rule findCandidates_step)
  ultimately show ?case by simp
qed

lemma findCandidates_found:
  "search n = Inr candidates \<Longrightarrow> findCandidates search bootstrap n = Some (Inr candidates, n)"
  by (subst findCandidates.simps) simp

lemma findCandidates_bootstrap_fails:
  "search n = Inl err \<Longrightarrow> errorsIs err ErrEmptyMap \<Longrightarrow> bootstrap n = Some bootErr \<Longrightarrow>
   findCandidates search bootstrap n = Some (Inl bootErr, Suc n)"
  by (subst findCandidates.simps) simp

lemma establishHomeHub_search:
  "GetInternetLocation w = Some locations \<Longrightarrow> getHomeHubPolicy w = Inr homePolicy \<Longrightarrow>
   establishHomeHub w =
     (case findCandidates (homeHubSearch w locations homePolicy) (bootstrapWithUpdates w) 0 of
        None \<Rightarrow> None
      | Some (Inl err, boots) \<Rightarrow> Some (Some err, boots)
      | Some (Inr candidates, boots) \<Rightarrow>
          if length candidates = 0 \<and> length homePolicy > 0
          then Some (Some ErrAllHomeHubsExcluded, boots)
          else Some (tryCandidates (connectToHomeHub w) candidates 0 0 None, boots))"
  by (simp add: establishHomeHub_def homeHubSearch_def [abs_def] Let_def)

text \<open>
  C4, as the code has it. Every search that fails with ErrEmptyMap is followed by a call
  of \<open>bootstrapWithUpdates\<close> and, when that succeeds, by another search, without a bound
  on the number of rounds: after \<open>n\<close> such rounds the call goes on with the result of
  the next search and has bootstrapped \<open>n\<close> times, and a bootstrap that fails in the
  next round ends the call with its error after \<open>n + 1\<close> bootstraps.
\<close>

theorem establishHomeHub_bootstraps_each_empty_map:
  assumes "GetInternetLocation w = Some locations"
    and "getHomeHubPolicy w = Inr homePolicy"
    and "\<forall>k<n. (\<exists>err. homeHubSearch w locations homePolicy k = Inl err \<and> errorsIs err ErrEmptyMap)
           \<and> bootstrapWithUpdates w k = None"
  shows "(homeHubSearch w locations homePolicy n = Inr candidates \<longrightarrow>
            establishHomeHub w =
              Some (if length candidates = 0 \<and> length homePolicy > 0
                    then Some ErrAllHomeHubsExcluded
                    else tryCandidates (connectToHomeHub w) candidates 0 0 None, n))
         \<and> (homeHubSearch w locations homePolicy n = Inl err \<and> errorsIs err ErrEmptyMap
            \<and> bootstrapWithUpdates w n = Some bootErr \<longrightarrow>
            establishHomeHub w = Some (Some bootErr, Suc n))"
proof -
  have skip: "findCandidates (homeHubSearch w locations homePolicy) (bootstrapWithUpdates w) 0 =
      findCandidates (homeHubSearch w locations homePolicy) (bootstrapWithUpdates w) n"
    using assms(3) by (rule findCandidates_skip)
  show ?thesis
  proof (intro conjI impI)
    assume "homeHubSearch w locations homePolicy n = Inr candidates"
    then have "findCandidates (homeHubSearch w locations homePolicy) (bootstrapWithUpdates w) n =
        Some (Inr candidates, n)"
      by (rule findCandidates_found)
    with skip show "establishHomeHub w =
              Some (if length candidates = 0 \<and> length homePolicy > 0
                    then Some ErrAllHomeHubsExcluded
                    else tryCandidates (connectToHomeHub w) candidates 0 0 None, n)"
      by (simp add: establishHomeHub_search [OF assms(1) assms(2)])
  next
    assume "homeHubSearch w locations homePolicy n = Inl err \<and> errorsIs err ErrEmptyMap
            \<and> bootstrapWithUpdates w n = Some bootErr"
    then have "findCandidates (homeHubSearch w locations homePolicy) (bootstrapWithUpdates w) n =
        Some (Inl bootErr, Suc n)"
      by (simp add: findCandidates_bootstrap_fails)
    with skip show "establishHomeHub w = Some (Some bootErr, Suc n)"
      by (simp add: establishHomeHub_search [OF assms(1) assms(2)])
  qed
qed

theorem establishHomeHub_bootstraps_each_empty_map_witness:
  "establishHomeHub sampleWorld = Some (None, 2)
   \<and> establishHomeHub failingBootstrapWorld = Some (Some (ErrorNew ''no bootstrap hubs''), 2)"
proof -
  have loc: "GetInternetLocation sampleWorld = Some sampleLocations"
    "GetInternetLocation failingBootstrapWorld = Some sampleLocations"
    by (simp_all add: sampleWorld_def failingBootstrapWorld_def sampleLocations_def)
  have pol: "getHomeHubPolicy sampleWorld = Inr []" "getHomeHubPolicy failingBootstrapWorld = Inr []"
    by (simp_all add: sampleWorld_def failingBootstrapWorld_def)
  have empty2: "\<forall>k<2. (\<exists>err. homeHubSearch sampleWorld sampleLocations [] k = Inl err
        \<and> errorsIs err ErrEmptyMap) \<and> bootstrapWithUpdates sampleWorld k = None"
    by (simp add: homeHubSearch_def sampleWorld_def)
  have empty1: "\<forall>k<1. (\<exists>err. homeHubSearch failingBootstrapWorld sampleLocations [] k = Inl err
        \<and> errorsIs err ErrEmptyMap) \<and> bootstrapWithUpdates failingBootstrapWorld k = None"
    by (simp add: homeHubSearch_def sampleWorld_def failingBootstrapWorld_def)
  have found: "homeHubSearch sampleWorld sampleLocations [] 2 = Inr [5, 6]"
    by (simp add: homeHubSearch_def sampleWorld_def)
  have fails: "homeHubSearch failingBootstrapWorld sampleLocations [] 1 = Inl ErrEmptyMap
      \<and> errorsIs ErrEmptyMap ErrEmptyMap
      \<and> bootstrapWithUpdates failingBootstrapWorld 1 = Some (ErrorNew ''no bootstrap hubs'')"
    by (simp add: homeHubSearch_def sampleWorld_def failingBootstrapWorld_def)
  from establishHomeHub_bootstraps_each_empty_map [OF loc(1) pol(1) empty2, of "[5, 6]"] found
  have "establishHomeHub sampleWorld = Some (None, 2)"
    by (simp add: sampleWorld_def)
  moreover
  from establishHomeHub_bootstraps_each_empty_map [OF loc(2) pol(2) empty1, of _ ErrEmptyMap] fails
  have "establishHomeHub failingBootstrapWorld = Some (Some (ErrorNew ''no bootstrap hubs''), 2)"
    by simp
  ultimately show ?thesis by simp
qed

text \<open>
  The claim as stated fails: in a world whose map is still empty after the first
  bootstrap, one call bootstraps twice.
\<close>

theorem second_empty_map_bootstraps_again:
  "establishHomeHub sampleWorld = Some (None, 2)
   \<and> \<not> (\<forall>r boots. establishHomeHub sampleWorld = Some (r, boots) \<longrightarrow> boots \<le> 1)"
  by (simp add: establishHomeHub_def sampleWorld_def findCandidates.simps Let_def
      LocationOrNil_def)

subsection \<open>The authentication wait\<close>

lemma firstReady_ended:
  assumes "endedAt w = Some (te, tErr)" "te < 3 * Second"
    "\<forall>tc. ctxDoneAt w = Some tc \<longrightarrow> te < tc"
  shows "firstReady w = [CaseEnded tErr]"
  using assms by (auto simp: firstReady_def readyAt_def Let_def split: option.splits)

lemma firstReady_timer:
  assumes "\<forall>te tErr. endedAt w = Some (te, tErr) \<longrightarrow> 3 * Second < te"
    "\<forall>tc. ctxDoneAt w = Some tc \<longrightarrow> 3 * Second < tc"
  shows "firstReady w = [CaseTimeAfter]"
  using assms by (auto simp: firstReady_def readyAt_def Let_def split: option.splits)

lemma firstReady_ctx:
  assumes "ctxDoneAt w = Some tc" "tc < 3 * Second"
    "\<forall>te tErr. endedAt w = Some (te, tErr) \<longrightarrow> tc < te"
  shows "firstReady w = [CaseCtxDone]"
  using assms by (auto simp: firstReady_def readyAt_def Let_def split: option.splits)

text \<open>
  C5. After \<open>AuthorizeToTerminal\<close> has succeeded, \<open>connectToHomeHub\<close> waits for
  \<open>Ended\<close> with a timer of exactly 3 seconds. When \<open>Ended\<close> delivers before the 3
  seconds are over (2.999 s included) and before the context is cancelled, the case of
  \<open>Ended\<close> is the one taken: with ErrExplicitAck the function goes on and, the home
  set, returns nil with the crane assigned; with any other value it returns that error
  wrapped, its code kept. When neither \<open>Ended\<close> nor the cancellation comes within the
  3 seconds the timer's case is taken and the function returns ErrTimeout with its
  message; when the context is cancelled first, it returns ErrStopping. In each failure
  the deferred function stops the crane.
\<close>

theorem auth_wait_outcomes:
  "3 * Second = 3000000000
   \<and> (endedAt wE = Some (te, tErr) \<and> te < 3 * Second
        \<and> (\<forall>tc. ctxDoneAt wE = Some tc \<longrightarrow> te < tc) \<longrightarrow>
        firstReady wE = [CaseEnded tErr])
   \<and> (Is ack terminalErrExplicitAck \<longrightarrow>
        authSelect (CaseEnded ack) = None
        \<and> connectToHomeHubAuth None (CaseEnded ack) True =
            \<lparr>returned = None, craneStopped = False, craneAssigned = True\<rparr>)
   \<and> (\<not> Is other terminalErrExplicitAck \<longrightarrow>
        connectToHomeHubAuth None (CaseEnded other) setHomeOk =
          \<lparr>returned = Some (Inr (Wrap other ''failed to authenticate to'')),
           craneStopped = True, craneAssigned = False\<rparr>
        \<and> Code (Wrap other ''failed to authenticate to'') = Code other)
   \<and> ((\<forall>te tErr. endedAt wT = Some (te, tErr) \<longrightarrow> 3 * Second < te)
        \<and> (\<forall>tc. ctxDoneAt wT = Some tc \<longrightarrow> 3 * Second < tc) \<longrightarrow>
        firstReady wT = [CaseTimeAfter])
   \<and> connectToHomeHubAuth None CaseTimeAfter setHomeOk =
        \<lparr>returned =
           Some (Inr (With terminalErrTimeout ''timed out waiting for auth to complete'')),
         craneStopped = True, craneAssigned = False\<rparr>
   \<and> Is (With terminalErrTimeout ''timed out waiting for auth to complete'') terminalErrTimeout
   \<and> (ctxDoneAt wC = Some tcC \<and> tcC < 3 * Second
        \<and> (\<forall>te tErr. endedAt wC = Some (te, tErr) \<longrightarrow> tcC < te) \<longrightarrow>
        firstReady wC = [CaseCtxDone])
   \<and> connectToHomeHubAuth None CaseCtxDone setHomeOk =
        \<lparr>returned = Some (Inr terminalErrStopping), craneStopped = True, craneAssigned = False\<rparr>"
proof -
  have ended: "endedAt wE = Some (te, tErr) \<and> te < 3 * Second
        \<and> (\<forall>tc. ctxDoneAt wE = Some tc \<longrightarrow> te < tc) \<longrightarrow>
        firstReady wE = [CaseEnded tErr]"
    using firstReady_ended [of wE te tErr] by blast
  have timer: "(\<forall>te tErr. endedAt wT = Some (te, tErr) \<longrightarrow> 3 * Second < te)
        \<and> (\<forall>tc. ctxDoneAt wT = Some tc \<longrightarrow> 3 * Second < tc) \<longrightarrow>
        firstReady wT = [CaseTimeAfter]"
    using firstReady_timer [of wT] by blast
  have ctx: "ctxDoneAt wC = Some tcC \<and> tcC < 3 * Second
        \<and> (\<forall>te tErr. endedAt wC = Some (te, tErr) \<longrightarrow> tcC < te) \<longrightarrow>
        firstReady wC = [CaseCtxDone]"
    using firstReady_ctx [of wC tcC] by blast
  from ended timer ctx show ?thesis
    by (simp add: Second_def connectToHomeHubAuth_def authSelect_def Wrap_def With_def Is_def
        terminalErrTimeout_def)
qed

theorem auth_wait_outcomes_witness:
  "firstReady ackAt2999ms = [CaseEnded terminalErrExplicitAck]
   \<and> returned (connectToHomeHubAuth None (CaseEnded terminalErrExplicitAck) True) = None
   \<and> returned (connectToHomeHubAuth None (CaseEnded \<lparr>Code = CodeRemote 7, Messages = []\<rparr>) True) =
       Some (Inr \<lparr>Code = CodeRemote 7, Messages = [''failed to authenticate to'']\<rparr>)
   \<and> firstReady neverEnded = [CaseTimeAfter]
   \<and> firstReady cancelledAt1s = [CaseCtxDone]"
  using auth_wait_outcomes [where wE = ackAt2999ms and te = 2999000000
      and tErr = terminalErrExplicitAck and ack = terminalErrExplicitAck
      and other = "\<lparr>Code = CodeRemote 7, Messages = []\<rparr>" and setHomeOk = True
      and wT = neverEnded and wC = cancelledAt1s and tcC = 1000000000]
  by (simp add: ackAt2999ms_def neverEnded_def cancelledAt1s_def Second_def Is_def Wrap_def
      terminalErrExplicitAck_def)

subsection \<open>The connections of an optimization pass\<close>















subsection \<open>Messages\<close>

text \<open>
  C7. \<open>Consume\<close> packs the other message, its header in front of its data; appends the
  packed data to the data of the consuming message, whose flow ID, type and unit stay;
  leaves the consuming message's unit high priority exactly when it was so before or the
  other's unit was; and finishes the other's unit once, and no other unit.
\<close>

theorem Consume_result:
  "(case Consume header sched msg other of
      (sched', msg', other') \<Rightarrow>
        Data other' = header (length (Data other)) (FlowID other) (Type other) @ Data other
        \<and> Data msg' = Data msg @ Data other'
        \<and> FlowID msg' = FlowID msg \<and> Type msg' = Type msg \<and> Unit msg' = Unit msg
        \<and> highPriority (units sched' (Unit msg)) =
            (highPriority (units sched (Unit msg)) \<or> highPriority (units sched (Unit other)))
        \<and> finished (units sched' (Unit other)) = Suc (finished (units sched (Unit other)))
        \<and> (\<forall>u. u \<noteq> Unit other \<longrightarrow> finished (units sched' u) = finished (units sched u))
        \<and> (\<forall>u. u \<noteq> Unit msg \<longrightarrow>
              highPriority (units sched' u) = highPriority (units sched u)))"
  by (simp add: Consume_def Pack_def MakeMsg_def FinishUnit_def UnitFinishUnit_def
      IsHighPriorityUnit_def MakeUnitHighPriority_def Let_def)

theorem Consume_result_witness:
  "Data (fst (snd (Consume sampleHeader sampleScheduler sampleMsg sampleOther))) =
     [1, 2, 6, 9, 2, 3]
   \<and> highPriority
        (units (fst (Consume sampleHeader sampleScheduler sampleMsg sampleOther)) 0)
   \<and> finished (units (fst (Consume sampleHeader sampleScheduler sampleMsg sampleOther)) 1) = 1
   \<and> finished (units (fst (Consume sampleHeader sampleScheduler sampleMsg sampleOther)) 0) = 0"
  using Consume_result [where header = sampleHeader and sched = sampleScheduler
      and msg = sampleMsg and other = sampleOther]
  by (simp add: Consume_def Pack_def MakeMsg_def FinishUnit_def UnitFinishUnit_def
      IsHighPriorityUnit_def MakeUnitHighPriority_def Let_def sampleHeader_def
      sampleScheduler_def sampleMsg_def sampleOther_def)

subsection \<open>Remote terminals\<close>

text \<open>
  C8. A remote terminal that a crane establishes is registered with an idle timeout of
  30 minutes when the crane is public, and with the timeout it was constructed with
  otherwise, which is the default of 15 minutes; the two constants are 30 and 15
  minutes.
\<close>

theorem establishTerminal_idle_timeout:
  "(newRemoteCraneTerminal crane flowID initData = Inr t \<longrightarrow>
      establishTerminal newRemoteCraneTerminal packError sched crane flowID initData =
        (sched, crane\<lparr>terminals := (terminals crane)(TerminalID t \<mapsto>
           t\<lparr>idleTimeout := (if Public crane then 30 * Minute else idleTimeout t)\<rparr>)\<rparr>))
   \<and> (parseInit initData = None \<longrightarrow>
      establishTerminal (NewRemoteCraneTerminal parseInit) packError sched crane flowID initData =
        (sched, crane\<lparr>terminals := (terminals crane)(flowID \<mapsto>
           \<lparr>TerminalID = flowID,
            idleTimeout = (if Public crane then 30 * Minute else 15 * Minute)\<rparr>)\<rparr>))
   \<and> remoteTerminalIdleTimeout = 30 * Minute
   \<and> defaultTerminalIdleTimeout = 15 * Minute
   \<and> Minute = 60 * 1000000000"
  by (simp add: establishTerminal_def NewRemoteCraneTerminal_def setTerminal_def SetTimeout_def
      remoteTerminalIdleTimeout_def defaultTerminalIdleTimeout_def Minute_def)

theorem establishTerminal_idle_timeout_witness:
  "map_option idleTimeout
     (terminals (snd (establishTerminal (NewRemoteCraneTerminal sampleParseInit) (\<lambda>e. [])
        sampleScheduler sampleCrane 8 [1])) 8) = Some (30 * 60 * 1000000000)
   \<and> map_option idleTimeout
     (terminals (snd (establishTerminal (NewRemoteCraneTerminal sampleParseInit) (\<lambda>e. [])
        sampleScheduler (sampleCrane\<lparr>Public := False\<rparr>) 8 [1])) 8) = Some (15 * 60 * 1000000000)"
  using establishTerminal_idle_timeout [where newRemoteCraneTerminal = "NewRemoteCraneTerminal sampleParseInit"
      and crane = sampleCrane and flowID = 8 and initData = "[1]"
      and t = "\<lparr>TerminalID = 8, idleTimeout = defaultTerminalIdleTimeout\<rparr>"
      and packError = "\<lambda>e. []" and sched = sampleScheduler and parseInit = sampleParseInit]
    establishTerminal_idle_timeout [where newRemoteCraneTerminal = "NewRemoteCraneTerminal sampleParseInit"
      and crane = "sampleCrane\<lparr>Public := False\<rparr>" and flowID = 8 and initData = "[1]"
      and t = "\<lparr>TerminalID = 8, idleTimeout = defaultTerminalIdleTimeout\<rparr>"
      and packError = "\<lambda>e. []" and sched = sampleScheduler and parseInit = sampleParseInit]
  by (simp add: establishTerminal_def NewRemoteCraneTerminal_def setTerminal_def SetTimeout_def
      remoteTerminalIdleTimeout_def defaultTerminalIdleTimeout_def Minute_def sampleCrane_def
      sampleParseInit_def)

text \<open>
  C9. \<open>Options.Copy\<close> keeps Regard, Disregard, HubPolicies, both policy-check entities,
  NoDefaults, RequireTrustedDestinationHubs and RoutingProfile, and returns an empty
  RequireVerifiedOwners whatever the original held.
\<close>

theorem Copy_drops_verified_owners:
  "Regard (Copy opts) = Regard opts
   \<and> Disregard (Copy opts) = Disregard opts
   \<and> HubPolicies (Copy opts) = HubPolicies opts
   \<and> CheckHubEntryPolicyWith (Copy opts) = CheckHubEntryPolicyWith opts
   \<and> CheckHubExitPolicyWith (Copy opts) = CheckHubExitPolicyWith opts
   \<and> NoDefaults (Copy opts) = NoDefaults opts
   \<and> RequireTrustedDestinationHubs (Copy opts) = RequireTrustedDestinationHubs opts
   \<and> RoutingProfile (Copy opts) = RoutingProfile opts
   \<and> RequireVerifiedOwners (Copy opts) = []"
  by (simp add: Copy_def)

end
